theory Spec2Isabelle
  imports Complex_Main "HOL-Library.Sublist"
begin

text \<open>
  A model of \<open>AudioProcessor.py\<close>, the worker of PySpectrogram that reads windows of
  PCM samples from a WAV file or from an audio device, estimates their power spectral
  density and emits the result to the user interface. The methods of the class
  \<open>AudioProcessor\<close> are functions on the record of its attributes; a method that can
  raise returns an outcome that keeps the attributes as the raise left them. Library calls
  (scipy, the file system, PyAudio) are parameters. The worker's loop is driven by the list
  of what reaches it from outside, one entry per cycle.
\<close>

section \<open>Python and numpy values\<close>

text \<open>
  Exceptions of the source are values. A Python float is the real number it stands for.
  Where the rounding of a float operation can change what the worker does (the FFT length,
  the frequency resolution and the signs of the bin frequencies, the time grid of a file),
  the operation is the exact one followed by \<open>fl\<close>, the rounding of a real number to
  the nearest double, which is a parameter of the model. The values of a spectrum are taken
  in exact arithmetic, and so is the product that centres a file window. The three
  special values that numpy produces where a real number has no answer (\<open>inf\<close>,
  \<open>-inf\<close>, \<open>nan\<close>) are kept apart in \<open>npfloat\<close>, because the estimator
  tests for them. The integer arguments of a signal are taken as unbounded integers.
\<close>

datatype py_error =
  ZeroDivisionError | IndexError | ValueError | AttributeError | FileNotFoundError | LibraryError

datatype npfloat = Fin real | PInf | NInf | NaN

text \<open>The three Qt signals of \<open>ThreadProcessorSignals\<close>, with their payloads.\<close>

datatype event =
  Iterated int nat int real "npfloat list"
| StatsUpdated int int real int "real list"
| Terminated int int

text \<open>An open or closed handle (the output recording, the device stream).\<close>

datatype handle = Open | Closed

text \<open>
  \<open>np.round\<close> rounds to the nearest integer and a tie to the even neighbour;
  \<open>int(x)\<close> on a float truncates towards zero.
\<close>

definition np_round :: "real \<Rightarrow> int" where
  "np_round x =
     (let f = \<lfloor>x\<rfloor>; d = x - of_int f
      in if d < 1 / 2 then f else if 1 / 2 < d then f + 1 else if even f then f else f + 1)"

definition py_trunc :: "real \<Rightarrow> int" where
  "py_trunc x = (if 0 \<le> x then \<lfloor>x\<rfloor> else \<lceil>x\<rceil>)"

text \<open>
  Boolean-mask indexing \<open>a[mask]\<close>: numpy keeps the elements whose mask entry is true,
  in order; an empty mask selects nothing from any array, and any other mask that is not
  as long as the array raises IndexError.
\<close>

definition mask_select :: "'a list \<Rightarrow> bool list \<Rightarrow> py_error + 'a list" where
  "mask_select xs ms =
     (if length ms = length xs then Inr (map fst (filter snd (zip xs ms)))
      else if ms = [] then Inr []
      else Inl IndexError)"

text \<open>
  Python slicing: a negative bound counts from the end, every bound is clipped to the
  list. \<open>py_slice xs a b\<close> is \<open>xs[a:b]\<close> and \<open>py_tail xs n\<close> is \<open>xs[-n:]\<close>
  (where \<open>-0\<close> is \<open>0\<close>, so \<open>xs[-0:]\<close> is the whole list).
\<close>

definition py_bound :: "nat \<Rightarrow> int \<Rightarrow> nat" where
  "py_bound len a = (if a < 0 then nat (int len + a) else min (nat a) len)"

definition py_slice :: "'a list \<Rightarrow> int \<Rightarrow> int \<Rightarrow> 'a list" where
  "py_slice xs a b =
     (let lo = py_bound (length xs) a; hi = py_bound (length xs) b
      in take (hi - lo) (drop lo xs))"

definition py_tail :: "'a list \<Rightarrow> int \<Rightarrow> 'a list" where
  "py_tail xs n = drop (py_bound (length xs) (- n)) xs"

section \<open>The environment: library calls\<close>

text \<open>
  What the worker asks of the float unit, scipy, the file system and PyAudio is a
  parameter of the model: \<open>fl\<close> rounds a real number to the nearest double,
  \<open>tukey M alpha\<close> is \<open>scipy.signal.tukey\<close>, \<open>file_exists\<close> is
  \<open>os.path.exists\<close>, \<open>copy_file\<close> is \<open>shutil.copy\<close> (which raises on a
  missing source), \<open>wav_read\<close> is \<open>scipy.io.wavfile.read\<close> (the rate and
  the samples of a one-channel file, a one-dimensional array), \<open>wav_column\<close> is the
  column \<open>snd[:, k]\<close> of the array read from a file, \<open>device_rate\<close> is the default sample
  rate of a device, \<open>wave_open\<close> opens the output recording, \<open>open_stream\<close> opens
  and starts the input stream, and \<open>parse_int\<close> is Python's \<open>int\<close> on a string.
\<close>

record env =
  fl :: "real \<Rightarrow> real"
  tukey :: "int \<Rightarrow> real \<Rightarrow> py_error + real list"
  file_exists :: "string \<Rightarrow> bool"
  copy_file :: "string \<Rightarrow> string \<Rightarrow> py_error option"
  wav_read :: "string \<Rightarrow> py_error + (int \<times> int list)"
  wav_column :: "string \<Rightarrow> int \<Rightarrow> py_error + int list"
  device_rate :: "int \<Rightarrow> py_error + real"
  wave_open :: "string \<Rightarrow> py_error option"
  open_stream :: "int \<Rightarrow> int \<Rightarrow> py_error option"
  parse_int :: "string \<Rightarrow> int option"

section \<open>The worker\<close>

text \<open>
  The attributes of \<open>AudioProcessor\<close>. \<open>taper\<close>, \<open>wavfile\<close> and \<open>stream\<close>
  are optional because the source reads them on paths where they may never have been
  assigned (Python raises AttributeError there). \<open>emitted\<close> is the sequence of signals
  the worker has emitted, oldest first.
\<close>

record worker =
  tabID :: int
  starttime :: real
  fftwindow :: real
  dt :: real
  alpha :: real
  isrunning :: bool
  reason :: int
  wavfilename :: string
  fromAudio :: bool
  isfrommic :: bool
  audiofile :: string
  audiosourceindex :: int
  fs :: int
  audiostream :: "int list"
  lensignal :: nat
  wavfile :: "handle option"
  stream :: "handle option"
  sampletimes :: "real list"
  maxnum :: nat
  N :: int
  taper :: "real list option"
  taperlen :: nat
  df :: real
  freqs_all :: "real list"
  keepind :: "bool list"
  freqs :: "real list"
  emitted :: "event list"

text \<open>
  A method either returns or raises; the worker it leaves behind is kept in both cases,
  since the assignments made before a raise stay.
\<close>

datatype outcome = Returned worker | Raised py_error worker

fun state_of :: "outcome \<Rightarrow> worker" where
  "state_of (Returned w) = w"
| "state_of (Raised e w) = w"

fun returned :: "outcome \<Rightarrow> bool" where
  "returned (Returned w) = True"
| "returned (Raised e w) = False"

fun and_then :: "outcome \<Rightarrow> (worker \<Rightarrow> outcome) \<Rightarrow> outcome" where
  "and_then (Returned w) k = k w"
| "and_then (Raised e w) k = Raised e w"

definition emit :: "event \<Rightarrow> worker \<Rightarrow> worker" where
  "emit ev w = w\<lparr>emitted := emitted w @ [ev]\<rparr>"

subsection \<open>terminate and abort\<close>

text \<open>
  \<open>terminate\<close> stores the reason, clears \<open>isrunning\<close>, for a device source closes the
  recording and stops and closes the stream (closing twice is harmless, a handle that was
  never assigned raises AttributeError), and then emits \<open>terminated\<close>.
\<close>

definition close_handles :: "worker \<Rightarrow> outcome" where
  "close_handles w =
     (case wavfile w of
        None \<Rightarrow> Raised AttributeError w
      | Some h \<Rightarrow>
          (let w1 = w\<lparr>wavfile := Some Closed\<rparr>
           in case stream w1 of
                None \<Rightarrow> Raised AttributeError w1
              | Some s \<Rightarrow> Returned (w1\<lparr>stream := Some Closed\<rparr>)))"

definition terminate :: "int \<Rightarrow> worker \<Rightarrow> outcome" where
  "terminate r w =
     (let w1 = w\<lparr>reason := r, isrunning := False\<rparr>
      in and_then (if \<not> fromAudio w1 then close_handles w1 else Returned w1)
           (\<lambda>w2. Returned (emit (Terminated (tabID w2) r) w2)))"

definition abort :: "worker \<Rightarrow> outcome" where
  "abort w = terminate 0 w"

subsection \<open>calc_settings and changethresholds\<close>

definition bin_freq :: "env \<Rightarrow> real \<Rightarrow> int \<Rightarrow> int \<Rightarrow> real" where
  "bin_freq e d n k =
     (if of_int k < of_int n / (2::real) then fl e (d * of_int k)
      else fl e (d * of_int (k - n)))"

definition calc_settings :: "env \<Rightarrow> worker \<Rightarrow> outcome" where
  "calc_settings e w =
     (let r = np_round (fl e (of_int (fs w) * fftwindow w));
          n = (if r mod 2 \<noteq> 0 then r + 1 else r);
          w1 = w\<lparr>N := n\<rparr>
      in and_then
           (if 0 < alpha w1
            then (case tukey e n (alpha w1) of
                    Inl err \<Rightarrow> Raised err w1
                  | Inr t \<Rightarrow> Returned (w1\<lparr>taper := Some t, taperlen := length t\<rparr>))
            else Returned (w1\<lparr>taperlen := 0\<rparr>))
           (\<lambda>w2.
              if n = 0 then Raised ZeroDivisionError w2
              else
                (let d = fl e (of_int (fs w2) / of_int n);
                     fa = map (\<lambda>k. bin_freq e d n (int k)) [0 ..< nat n];
                     ki = map (\<lambda>f. 0 \<le> f) fa;
                     w3 = w2\<lparr>df := d, freqs_all := fa, keepind := ki\<rparr>
                 in case mask_select fa ki of
                      Inl err \<Rightarrow> Raised err w3
                    | Inr fr \<Rightarrow>
                        (let w4 = w3\<lparr>freqs := fr\<rparr>
                         in Returned
                              (emit (StatsUpdated (tabID w4) (fs w4) (df w4) (N w4) (freqs w4)) w4)))))"

definition changethresholds :: "env \<Rightarrow> real \<Rightarrow> real \<Rightarrow> real \<Rightarrow> worker \<Rightarrow> outcome" where
  "changethresholds e fftwindow' dt' alpha' w =
     (let w1 = w\<lparr>fftwindow := (if fftwindow' \<le> 1 then fftwindow' else 1)\<rparr>;
          w2 = w1\<lparr>dt := dt'\<rparr>;
          w3 = w2\<lparr>alpha := (if 1 < alpha' then 1 else if alpha' < 0 then 0 else alpha')\<rparr>
      in calc_settings e w3)"

definition changethresholds_slot :: "env \<Rightarrow> real \<Rightarrow> real \<Rightarrow> real \<Rightarrow> worker \<Rightarrow> outcome" where
  "changethresholds_slot e fftwindow' dt' alpha' w = changethresholds e fftwindow' dt' alpha' w"

subsection \<open>dofft: the spectral estimator\<close>

text \<open>
  \<open>np.fft.fft\<close> is the discrete Fourier transform; on an empty array it raises
  ValueError. An array product broadcasts: the lengths must agree unless one of them is 1,
  else numpy raises ValueError.
\<close>

definition dft :: "complex list \<Rightarrow> complex list" where
  "dft xs =
     map (\<lambda>k. \<Sum>n<length xs.
                 xs ! n * cis (- (2 * pi * real k * real n / real (length xs))))
       [0 ..< length xs]"

definition np_fft :: "complex list \<Rightarrow> py_error + complex list" where
  "np_fft xs = (if xs = [] then Inl ValueError else Inr (dft xs))"

definition np_mul :: "real list \<Rightarrow> real list \<Rightarrow> py_error + real list" where
  "np_mul xs ts =
     (if length xs = length ts then Inr (map (\<lambda>(x, t). x * t) (zip xs ts))
      else if length ts = 1 then Inr (map (\<lambda>x. x * hd ts) xs)
      else if length xs = 1 then Inr (map (\<lambda>t. hd xs * t) ts)
      else Inl ValueError)"

text \<open>
  Division of an array element by the scalar \<open>df\<close> (a zero divisor gives \<open>inf\<close> or
  \<open>nan\<close>, zero being taken as \<open>+0.0\<close>), the test \<open>np.isinf\<close>, and
  \<open>np.log10\<close>, whose value at zero is \<open>-inf\<close>.
\<close>

definition np_div :: "real \<Rightarrow> real \<Rightarrow> npfloat" where
  "np_div x d =
     (if d = 0 then (if x = 0 then NaN else if 0 < x then PInf else NInf) else Fin (x / d))"

fun np_isinf :: "npfloat \<Rightarrow> bool" where
  "np_isinf PInf = True"
| "np_isinf NInf = True"
| "np_isinf (Fin x) = False"
| "np_isinf NaN = False"

fun np_log10 :: "npfloat \<Rightarrow> npfloat" where
  "np_log10 (Fin x) = (if x = 0 then NInf else if x < 0 then NaN else Fin (log 10 x))"
| "np_log10 PInf = PInf"
| "np_log10 NInf = NaN"
| "np_log10 NaN = NaN"

text \<open>
  The two middle lines of \<open>dofft\<close>, from the transform on: \<open>|X(f)^2| / df\<close> for
  every bin, then every infinite entry overwritten with \<open>1.0E-8\<close>.
\<close>

definition psd :: "real \<Rightarrow> complex list \<Rightarrow> npfloat list" where
  "psd d spectrum =
     map (\<lambda>v. if np_isinf v then Fin (1 / 10 ^ 8) else v)
       (map (\<lambda>z. np_div (cmod (z ^ 2)) d) spectrum)"

text \<open>
  The taper step of \<open>dofft\<close>: with \<open>alpha > 0\<close> the cached taper is used when its
  recorded length is the window's, otherwise a new taper is computed and stored (the
  recorded length is left as it was); the window is multiplied by the stored taper.
\<close>

definition apply_taper :: "env \<Rightarrow> worker \<Rightarrow> real list \<Rightarrow> (py_error + real list) \<times> worker" where
  "apply_taper e w pcmdata =
     (if 0 < alpha w then
        (case (if length pcmdata = taperlen w then Inr w
               else (case tukey e (int (length pcmdata)) (alpha w) of
                       Inl err \<Rightarrow> Inl err
                     | Inr t \<Rightarrow> Inr (w\<lparr>taper := Some t\<rparr>))) of
           Inl err \<Rightarrow> (Inl err, w)
         | Inr w1 \<Rightarrow>
             (case taper w1 of
                None \<Rightarrow> (Inl AttributeError, w1)
              | Some t \<Rightarrow> (np_mul pcmdata t, w1)))
      else (Inr pcmdata, w))"

definition dofft :: "env \<Rightarrow> worker \<Rightarrow> real list \<Rightarrow> (py_error + npfloat list) \<times> worker" where
  "dofft e w pcmdata =
     (case apply_taper e w pcmdata of
        (Inl err, w1) \<Rightarrow> (Inl err, w1)
      | (Inr tapered, w1) \<Rightarrow>
          (case np_fft (map complex_of_real tapered) of
             Inl err \<Rightarrow> (Inl err, w1)
           | Inr spectrum \<Rightarrow>
               (case mask_select (psd (df w1) spectrum) (keepind w1) of
                  Inl err \<Rightarrow> (Inl err, w1)
                | Inr kept \<Rightarrow> (Inr (map np_log10 kept), w1))))"

subsection \<open>Construction\<close>

text \<open>\<open>str\<close> of an integer, for the name of the recording.\<close>

fun str_nat :: "nat \<Rightarrow> string" where
  "str_nat n =
     (if n < 10 then [''0123456789'' ! n]
      else str_nat (n div 10) @ [''0123456789'' ! (n mod 10)])"

definition py_str :: "int \<Rightarrow> string" where
  "py_str i = (if i < 0 then CHR ''-'' # str_nat (nat (- i)) else str_nat (nat i))"

text \<open>
  The file branch of \<open>__init__\<close>. After \<open>terminate(1)\<close> on a missing file the
  constructor goes on to copy and read the file, as the source does. The sample buffer of
  the model is one-dimensional: main.py asks for channel 0 only when the file has one
  channel, and for a file with more channels it asks for a column.
\<close>

definition init_file :: "env \<Rightarrow> string \<Rightarrow> worker \<Rightarrow> outcome" where
  "init_file e datasource w =
     (let w1 = w\<lparr>fromAudio := True\<rparr>
      in case parse_int e (py_slice datasource 4 9) of
           None \<Rightarrow> Raised ValueError w1
         | Some chnum \<Rightarrow>
             (let w2 = w1\<lparr>audiofile := drop 10 datasource\<rparr>
              in and_then (if \<not> file_exists e (audiofile w2) then terminate 1 w2 else Returned w2)
                   (\<lambda>w3.
                      case copy_file e (audiofile w3) (wavfilename w3) of
                        Some err \<Rightarrow> Raised err w3
                      | None \<Rightarrow>
                          (case wav_read e (audiofile w3) of
                             Inl err \<Rightarrow> Raised err w3
                           | Inr (rate, samples) \<Rightarrow>
                               (let w4 = w3\<lparr>fs := rate\<rparr>
                                in and_then
                                     (if 0 < chnum
                                      then (case wav_column e (audiofile w4) (chnum - 1) of
                                              Inl err \<Rightarrow> Raised err w4
                                            | Inr col \<Rightarrow> Returned (w4\<lparr>audiostream := col\<rparr>))
                                      else Returned (w4\<lparr>audiostream := samples\<rparr>))
                                     (\<lambda>w5. Returned (w5\<lparr>lensignal := length (audiostream w5)\<rparr>)))))))"

text \<open>The device branch: the rolling buffer starts as 100000 zeros.\<close>

definition init_device :: "env \<Rightarrow> string \<Rightarrow> worker \<Rightarrow> outcome" where
  "init_device e datasource w =
     (let w1 = w\<lparr>fromAudio := False\<rparr>
      in case parse_int e (drop 4 datasource) of
           None \<Rightarrow> Raised ValueError w1
         | Some idx \<Rightarrow>
             (let w2 = w1\<lparr>audiosourceindex := idx\<rparr>
              in case device_rate e idx of
                   Inl err \<Rightarrow> Raised err w2
                 | Inr rate \<Rightarrow>
                     (let w3 = w2\<lparr>fs := np_round rate, audiostream := replicate 100000 0\<rparr>
                      in case wave_open e (wavfilename w3) of
                           Some err \<Rightarrow> Raised err w3
                         | None \<Rightarrow> Returned (w3\<lparr>wavfile := Some Open\<rparr>))))"

text \<open>
  The attributes \<open>__init__\<close> assigns before it looks at the data source; the others
  are not assigned yet and carry placeholder values until their first assignment.
\<close>

definition fresh :: "string \<Rightarrow> string \<Rightarrow> int \<Rightarrow> real \<Rightarrow> real \<Rightarrow> real \<Rightarrow> real \<Rightarrow> worker" where
  "fresh savedir slash tabID' starttime' fftwindow' dt' alpha' =
     \<lparr>tabID = tabID', starttime = starttime', fftwindow = fftwindow', dt = dt', alpha = alpha',
      isrunning = False, reason = 0,
      wavfilename = savedir @ slash @ ''tempwav_'' @ py_str tabID' @ ''.WAV'',
      fromAudio = False, isfrommic = False, audiofile = [], audiosourceindex = 0, fs = 0,
      audiostream = [], lensignal = 0, wavfile = None, stream = None, sampletimes = [],
      maxnum = 0, N = 0, taper = None, taperlen = 0, df = 0, freqs_all = [], keepind = [],
      freqs = [], emitted = []\<rparr>"

definition init ::
  "env \<Rightarrow> string \<Rightarrow> string \<Rightarrow> string \<Rightarrow> int \<Rightarrow> real \<Rightarrow> real \<Rightarrow> real \<Rightarrow> real \<Rightarrow> outcome" where
  "init e datasource savedir slash tabID' starttime' fftwindow' dt' alpha' =
     (let w = fresh savedir slash tabID' starttime' fftwindow' dt' alpha'
      in and_then
           (if take 3 datasource = ''AAA'' then init_file e datasource w
            else if take 3 datasource = ''MMM'' then init_device e datasource w
            else terminate 1 w)
           (\<lambda>w1. Returned (w1\<lparr>isrunning := True\<rparr>)))"

subsection \<open>run\<close>

text \<open>
  What reaches the worker from outside during one cycle of its loop: the reading of the
  clock at the top of the cycle, the buffers the hardware callback delivers, a call of the
  settings slot, and a call of \<open>abort\<close>. The loop is modelled over the list of these, one
  per cycle; after the last one the worker is observed as it stands.
\<close>

record tick =
  clock :: real
  arrivals :: "(int list \<times> nat) list"
  reconf :: "(real \<times> real \<times> real) option"
  stop :: bool

text \<open>
  The callback appends the delivered data, deletes \<open>nframes\<close> entries from the front and
  writes the recording; any exception in it ends in \<open>terminate(5)\<close>, and the
  \<open>return\<close> in its \<open>finally\<close> clause swallows whatever that raises.
\<close>

definition updateaudiobuffer :: "worker \<Rightarrow> int list \<times> nat \<Rightarrow> worker" where
  "updateaudiobuffer w b =
     (if isrunning w then
        (let w1 = w\<lparr>audiostream := drop (snd b) (audiostream w @ fst b)\<rparr>
         in if wavfile w1 = Some Open then w1 else state_of (terminate 5 w1))
      else w)"

definition after_cycle :: "env \<Rightarrow> tick \<Rightarrow> worker \<Rightarrow> worker" where
  "after_cycle e t w =
     (let w1 = (if fromAudio w then w else foldl updateaudiobuffer w (arrivals t));
          w2 = (case reconf t of
                  None \<Rightarrow> w1
                | Some (a, b, c) \<Rightarrow> state_of (changethresholds_slot e a b c w1))
      in if stop t then state_of (abort w2) else w2)"

text \<open>The startup barrier; \<open>Some\<close> is the outcome of a \<open>run\<close> that returns from it.\<close>

function barrier :: "worker \<Rightarrow> nat \<Rightarrow> outcome option" where
  "barrier w counts =
     (if \<not> isrunning w then
        (if reason w \<noteq> 0 then Some (Returned w)
         else if 100 < counts + 1 then Some (terminate 3 w)
         else barrier w (counts + 1))
      else None)"
  by pat_completeness auto
termination
  by (relation "measure (\<lambda>(w, counts). 101 - counts)") auto

text \<open>
  \<open>np.arange(0, stop, step)\<close> on floats: the number of grid times is the ceiling of
  the float quotient \<open>stop / step\<close>, and the grid time \<open>k\<close> is the float product of
  \<open>k\<close> and \<open>step\<close>. Then the set-up of the two kinds of source; the end of the grid
  of a file is the float quotient \<open>lensignal / fs\<close>.
\<close>

definition np_arange :: "env \<Rightarrow> real \<Rightarrow> real \<Rightarrow> py_error + real list" where
  "np_arange e stp step =
     (if step = 0 then Inl ZeroDivisionError
      else Inr (map (\<lambda>k. fl e (real k * step)) [0 ..< nat \<lceil>fl e (stp / step)\<rceil>]))"

definition file_setup :: "env \<Rightarrow> worker \<Rightarrow> outcome" where
  "file_setup e w =
     (if fs w = 0 then Raised ZeroDivisionError w
      else (case np_arange e (fl e (real (lensignal w) / real_of_int (fs w))) (dt w) of
              Inl err \<Rightarrow> Raised err w
            | Inr ts \<Rightarrow> Returned (w\<lparr>sampletimes := ts, maxnum := length ts\<rparr>)))"

definition device_setup :: "env \<Rightarrow> worker \<Rightarrow> outcome" where
  "device_setup e w =
     (let w1 = w\<lparr>maxnum := 0\<rparr>
      in case open_stream e (audiosourceindex w1) (fs w1) of
           None \<Rightarrow> Returned (w1\<lparr>stream := Some Open\<rparr>)
         | Some err \<Rightarrow> terminate 2 w1)"

text \<open>The window of a file source around the time \<open>ctime\<close>, or none.\<close>

definition file_window :: "worker \<Rightarrow> real \<Rightarrow> int list option" where
  "file_window w ctime =
     (let ctrind = np_round (ctime * real_of_int (fs w));
          pmind = py_trunc (real_of_int (N w) / 2)
      in if 0 \<le> ctrind - pmind \<and> ctrind + pmind < int (lensignal w)
         then Some (py_slice (audiostream w) (ctrind - pmind) (ctrind + pmind))
         else None)"

text \<open>
  The sample time of cycle \<open>k\<close> and the window read for it: a grid time and the
  window around it for a file, the time since the start and the tail of the rolling
  buffer for a device.
\<close>

definition sample_time :: "worker \<Rightarrow> tick \<Rightarrow> nat \<Rightarrow> real" where
  "sample_time w t k = (if fromAudio w then sampletimes w ! k else clock t - starttime w)"

definition read_window :: "worker \<Rightarrow> tick \<Rightarrow> nat \<Rightarrow> int list option" where
  "read_window w t k =
     (if fromAudio w then file_window w (sample_time w t k)
      else Some (py_tail (audiostream w) (N w)))"

text \<open>
  The loop of \<open>run\<close>. The counter \<open>k\<close> is the value \<open>i\<close> has in the cycle that
  starts (the source keeps \<open>i = k - 1\<close> between cycles). A raise inside the loop leaves
  it; \<open>run\<close> catches it.
\<close>

fun loop :: "env \<Rightarrow> worker \<Rightarrow> nat \<Rightarrow> tick list \<Rightarrow> outcome" where
  "loop e w k [] = Returned w"
| "loop e w k (t # ts) =
     (if \<not> isrunning w then Returned w
      else if fromAudio w \<and> \<not> k < maxnum w then terminate 0 w
      else if fromAudio w \<and> \<not> k < length (sampletimes w) then Raised IndexError w
      else
        (case read_window w t k of
           None \<Rightarrow> loop e (after_cycle e t w) (Suc k) ts
         | Some pcmdata \<Rightarrow>
             (case dofft e w (map real_of_int pcmdata) of
                (Inl err, w1) \<Rightarrow> Raised err w1
              | (Inr spectra, w1) \<Rightarrow>
                  loop e
                    (after_cycle e t
                       (emit (Iterated (int k) (maxnum w1) (tabID w1) (sample_time w t k) spectra)
                          w1))
                    (Suc k) ts)))"

definition run :: "env \<Rightarrow> worker \<Rightarrow> tick list \<Rightarrow> outcome" where
  "run e w ticks =
     (case barrier w 0 of
        Some out \<Rightarrow> out
      | None \<Rightarrow>
          if reason w \<noteq> 0 then Returned w
          else
            and_then (changethresholds e (fftwindow w) (dt w) (alpha w) w)
              (\<lambda>w1. and_then (if fromAudio w1 then file_setup e w1 else device_setup e w1)
                 (\<lambda>w2. case loop e w2 0 ticks of
                          Raised err w3 \<Rightarrow> terminate 4 (w3\<lparr>isrunning := False\<rparr>)
                        | Returned w3 \<Rightarrow> Returned w3)))"

text \<open>The spectral records among the emitted signals: iteration index and sample time.\<close>

fun records :: "event list \<Rightarrow> (int \<times> real) list" where
  "records [] = []"
| "records (Iterated i m tab ctime spectra # evs) = (i, ctime) # records evs"
| "records (StatsUpdated tab rate d n fr # evs) = records evs"
| "records (Terminated tab r # evs) = records evs"

subsection \<open>Sequences of calls and concrete instances\<close>

text \<open>\<open>terminate\<close> called once for every reason of a list, in order.\<close>

definition terminate_all :: "int list \<Rightarrow> worker \<Rightarrow> worker" where
  "terminate_all rs w = foldl (\<lambda>w r. state_of (terminate r w)) w rs"

text \<open>
  A small environment to run the model in: one file \<open>a.wav\<close> of eight samples at rate 4,
  one device with index 0 and rate 4, and a window function that returns the rectangular
  window of the requested length. Its rounding is the identity: the examples use small
  integers and halves, and every float operation on them is exact.
\<close>

definition example_env :: env where
  "example_env =
     \<lparr>fl = (\<lambda>x. x),
      tukey = (\<lambda>m a. if m < 0 then Inl ValueError else Inr (replicate (nat m) 1)),
      file_exists = (\<lambda>p. p = ''a.wav''),
      copy_file = (\<lambda>src dst. if src = ''a.wav'' then None else Some FileNotFoundError),
      wav_read = (\<lambda>p. if p = ''a.wav'' then Inr (4, [1, 0, 0, 0, 0, 0, 0, 0])
                      else Inl FileNotFoundError),
      wav_column = (\<lambda>p k. Inl IndexError),
      device_rate = (\<lambda>i. if i = 0 then Inr 4 else Inl LibraryError),
      wave_open = (\<lambda>p. None),
      open_stream = (\<lambda>i r. None),
      parse_int = (\<lambda>s. if s = ''00000'' \<or> s = ''0'' then Some 0 else None)\<rparr>"

text \<open>The worker \<open>__init__\<close> builds for \<open>a.wav\<close> (window 1 s, cadence 0.5 s, no taper).\<close>

definition example_file_worker :: worker where
  "example_file_worker =
     \<lparr>tabID = 7, starttime = 0, fftwindow = 1, dt = 1 / 2, alpha = 0, isrunning = True,
      reason = 0, wavfilename = ''tmp/tempwav_7.WAV'', fromAudio = True, isfrommic = False,
      audiofile = ''a.wav'', audiosourceindex = 0, fs = 4,
      audiostream = [1, 0, 0, 0, 0, 0, 0, 0], lensignal = 8, wavfile = None, stream = None,
      sampletimes = [], maxnum = 0, N = 0, taper = None, taperlen = 0, df = 0,
      freqs_all = [], keepind = [], freqs = [], emitted = []\<rparr>"

text \<open>The same worker after \<open>calc_settings\<close>: four bins, of which two are kept.\<close>

definition example_settled :: worker where
  "example_settled =
     example_file_worker
       \<lparr>N := 4, df := 1, freqs_all := [0, 1, - 2, - 1],
        keepind := [True, True, False, False], freqs := [0, 1],
        emitted := [StatsUpdated 7 4 1 4 [0, 1]]\<rparr>"

text \<open>
  The worker \<open>__init__\<close> builds for device 0, and a cycle in which nothing reaches the
  worker from outside.
\<close>

definition example_device_worker :: worker where
  "example_device_worker =
     \<lparr>tabID = 8, starttime = 10, fftwindow = 1, dt = 1 / 2, alpha = 0, isrunning = True,
      reason = 0, wavfilename = ''tmp/tempwav_8.WAV'', fromAudio = False, isfrommic = False,
      audiofile = [], audiosourceindex = 0, fs = 4, audiostream = replicate 100000 0,
      lensignal = 0, wavfile = Some Open, stream = None, sampletimes = [], maxnum = 0, N = 0,
      taper = None, taperlen = 0, df = 0, freqs_all = [], keepind = [], freqs = [],
      emitted = []\<rparr>"

definition quiet :: "real \<Rightarrow> tick" where
  "quiet c = \<lparr>clock = c, arrivals = [], reconf = None, stop = False\<rparr>"

text \<open>
  Relations used to state what a run preserves: \<open>extends w w'\<close> says that \<open>w'\<close> has the
  source kind, time grid, start time and tab of \<open>w\<close> and has only added signals;
  \<open>ordered timed\<close> says that a list of records has strictly increasing indices and,
  when \<open>timed\<close> holds, non-decreasing times; \<open>future timed w k ts c\<close> says, when
  \<open>timed\<close> holds, that the time \<open>c\<close> is not after any sample time a cycle from
  \<open>k\<close> on can take.
\<close>

definition extends :: "worker \<Rightarrow> worker \<Rightarrow> bool" where
  "extends w w' \<longleftrightarrow>
     fromAudio w' = fromAudio w \<and> sampletimes w' = sampletimes w \<and> maxnum w' = maxnum w \<and>
     starttime w' = starttime w \<and> tabID w' = tabID w \<and> prefix (emitted w) (emitted w')"

definition ordered :: "bool \<Rightarrow> (int \<times> real) list \<Rightarrow> bool" where
  "ordered timed rs \<longleftrightarrow> sorted_wrt (<) (map fst rs) \<and> (timed \<longrightarrow> sorted (map snd rs))"

definition future :: "bool \<Rightarrow> worker \<Rightarrow> nat \<Rightarrow> tick list \<Rightarrow> real \<Rightarrow> bool" where
  "future timed w k ts c \<longleftrightarrow>
     (timed \<longrightarrow>
       (if fromAudio w
        then (\<forall>k'. k \<le> k' \<and> k' < length (sampletimes w) \<longrightarrow> c \<le> sampletimes w ! k')
        else (\<forall>t \<in> set ts. c \<le> clock t - starttime w)))"

text \<open>
  Two facts of rounding to the nearest double that the properties below rest on. Rounding
  is monotone and leaves zero alone. And the float product of a double \<open>d\<close> with an
  integer is negative exactly when the exact product is: the product of a non-zero double
  with a non-zero integer is at least as large in size as the double, so it does not
  vanish.
\<close>

definition rounding_monotone :: "env \<Rightarrow> bool" where
  "rounding_monotone e \<longleftrightarrow> (\<forall>x y. x \<le> y \<longrightarrow> fl e x \<le> fl e y) \<and> fl e 0 = 0"

definition sign_kept :: "env \<Rightarrow> real \<Rightarrow> bool" where
  "sign_kept e d \<longleftrightarrow> (\<forall>m::int. (0 \<le> fl e (d * of_int m)) = (0 \<le> d * of_int m))"

text \<open>The example file worker after the set-up in \<open>run\<close>: four grid times.\<close>

definition example_running :: worker where
  "example_running = example_settled\<lparr>sampletimes := [0, 1 / 2, 1, 3 / 2], maxnum := 4\<rparr>"

text \<open>The example device worker after the set-up in \<open>run\<close>.\<close>

definition example_streaming :: worker where
  "example_streaming =
     example_device_worker
       \<lparr>N := 4, df := 1, freqs_all := [0, 1, - 2, - 1],
        keepind := [True, True, False, False], freqs := [0, 1], stream := Some Open,
        emitted := [StatsUpdated 8 4 1 4 [0, 1]]\<rparr>"

text \<open>
  A second environment, for the sample rate 22050 and the window 0.05 s. The double
  nearest to 0.05 is \<open>3602879701896397 / 2^56\<close>; its exact product with 22050 lies just
  above 1102.5, and the float product is 1102.5 itself. \<open>tie_env\<close> rounds that one
  product so and leaves every other number alone.
\<close>

definition tie_env :: env where
  "tie_env =
     example_env
       \<lparr>fl := (\<lambda>x. if x = 22050 * (3602879701896397 / 72057594037927936) then 2205 / 2
                   else x)\<rparr>"

definition tie_worker :: worker where
  "tie_worker =
     example_file_worker\<lparr>fs := 22050, fftwindow := 3602879701896397 / 72057594037927936\<rparr>"

section \<open>Properties\<close>

subsection \<open>Settings\<close>

lemma round_up_even:
  "(if r mod 2 \<noteq> 0 then r + 1 else r) = 2 * \<lceil>real_of_int r / 2\<rceil>" for r :: int
proof (cases "even r")
  case True
  then obtain k where k: "r = 2 * k" by (auto elim: evenE)
  have "\<lceil>real_of_int r / 2\<rceil> = k" unfolding k by simp
  with k show ?thesis by simp
next
  case False
  then obtain k where k: "r = 2 * k + 1" by (auto elim: oddE)
  have "\<lceil>real_of_int r / 2\<rceil> = k + 1"
    unfolding k by (rule ceiling_unique) (simp_all add: field_simps)
  with k show ?thesis by simp
qed

lemma calc_settings_N:
  "N (state_of (calc_settings e w)) =
     (let r = np_round (fl e (of_int (fs w) * fftwindow w))
      in if r mod 2 \<noteq> 0 then r + 1 else r)"
  by (simp add: calc_settings_def Let_def emit_def mask_select_def split: sum.splits)

lemma calc_settings_keeps:
  "fftwindow (state_of (calc_settings e w)) = fftwindow w"
  "dt (state_of (calc_settings e w)) = dt w"
  "alpha (state_of (calc_settings e w)) = alpha w"
  "fs (state_of (calc_settings e w)) = fs w"
  by (simp_all add: calc_settings_def Let_def emit_def mask_select_def split: sum.splits)

lemma calc_settings_df:
  "returned (calc_settings e w) \<Longrightarrow>
     N (state_of (calc_settings e w)) \<noteq> 0 \<and>
     df (state_of (calc_settings e w)) =
       fl e (of_int (fs w) / of_int (N (state_of (calc_settings e w))))"
  by (simp add: calc_settings_def Let_def emit_def mask_select_def split: sum.splits if_splits)

lemma calc_settings_returned_iff:
  "returned (calc_settings e w) \<longleftrightarrow>
     N (state_of (calc_settings e w)) \<noteq> 0 \<and>
     (0 < alpha w \<longrightarrow> (\<exists>t. tukey e (N (state_of (calc_settings e w))) (alpha w) = Inr t))"
  by (auto simp add: calc_settings_def Let_def emit_def mask_select_def
      split: sum.splits if_splits)

lemma calc_settings_example: "calc_settings example_env example_file_worker = Returned example_settled"
  by (simp add: calc_settings_def example_env_def example_file_worker_def example_settled_def
      np_round_def Let_def bin_freq_def mask_select_def emit_def upt_rec)

lemma calc_settings_tie: "N (state_of (calc_settings tie_env tie_worker)) = 1102"
proof -
  have "np_round (2205 / 2) = 1102" by (simp add: np_round_def)
  then show ?thesis
    by (simp add: calc_settings_N tie_env_def tie_worker_def example_file_worker_def Let_def)
qed

text \<open>
  Claim C1. \<open>calc_settings\<close> stores as \<open>N\<close> the value \<open>np.round(fs * fftwindow)\<close>
  rounded up to the next even integer, so \<open>N\<close> is even; it returns exactly when that
  \<open>N\<close> is not zero and the taper (asked for when \<open>alpha > 0\<close>) was computed, and
  then the stored \<open>df\<close> is \<open>fs / N\<close>. Product and quotient are the float ones, as the
  code computes them: the exact results rounded by \<open>fl\<close>.
\<close>

theorem calc_settings_even_N_and_df:
  "N (state_of (calc_settings e w))
     = 2 * \<lceil>real_of_int (np_round (fl e (of_int (fs w) * fftwindow w))) / 2\<rceil>
   \<and> even (N (state_of (calc_settings e w)))
   \<and> (returned (calc_settings e w) \<longleftrightarrow>
        N (state_of (calc_settings e w)) \<noteq> 0 \<and>
        (0 < alpha w \<longrightarrow>
           (\<exists>t. tukey e (N (state_of (calc_settings e w))) (alpha w) = Inr t)))
   \<and> (returned (calc_settings e w) \<longrightarrow>
        df (state_of (calc_settings e w))
          = fl e (of_int (fs w) / of_int (N (state_of (calc_settings e w)))))"
proof -
  let ?r = "np_round (fl e (of_int (fs w) * fftwindow w))"
  have n: "N (state_of (calc_settings e w)) = 2 * \<lceil>real_of_int ?r / 2\<rceil>"
    using round_up_even[of ?r] by (simp add: calc_settings_N Let_def)
  have "even (N (state_of (calc_settings e w)))" unfolding n by simp
  with n calc_settings_df[of e w] calc_settings_returned_iff[of e w] show ?thesis by blast
qed

theorem calc_settings_even_N_and_df_witness:
  "returned (calc_settings example_env example_file_worker)
   \<and> N (state_of (calc_settings example_env example_file_worker)) = 4
   \<and> df (state_of (calc_settings example_env example_file_worker)) = 4 / 4
   \<and> 2 * \<lceil>real_of_int (np_round (fl tie_env (of_int (fs tie_worker) * fftwindow tie_worker))) / 2\<rceil>
       = 1102"
proof -
  have r: "returned (calc_settings example_env example_file_worker)"
    by (simp add: calc_settings_example)
  have f: "fs example_file_worker = 4" "N example_settled = 4" "df example_settled = 1"
    "fl example_env x = x" for x
    by (simp_all add: example_settled_def example_file_worker_def example_env_def)
  from calc_settings_even_N_and_df[of example_env example_file_worker] r
  have "df (state_of (calc_settings example_env example_file_worker))
          = fl example_env (of_int (fs example_file_worker)
              / of_int (N (state_of (calc_settings example_env example_file_worker))))"
    by blast
  moreover from calc_settings_even_N_and_df[of tie_env tie_worker] calc_settings_tie
  have "2 * \<lceil>real_of_int (np_round (fl tie_env (of_int (fs tie_worker) * fftwindow tie_worker))) / 2\<rceil>
          = 1102"
    by simp
  ultimately show ?thesis using r by (simp add: calc_settings_example f)
qed

text \<open>
  Claim C5, as amended. After \<open>changethresholds(fftwindow, dt, alpha)\<close> the stored window
  length is the smaller of \<open>fftwindow\<close> and 1: it is at most 1, and positive when the
  argument is positive (there is no lower clamp). The stored alpha lies in \<open>[0, 1]\<close> and
  the stored \<open>dt\<close> is the argument. This holds whether or not \<open>calc_settings\<close> then
  raises.
\<close>

theorem changethresholds_stores:
  "fftwindow (state_of (changethresholds e fw d a w)) = min fw 1
   \<and> fftwindow (state_of (changethresholds e fw d a w)) \<le> 1
   \<and> (0 < fw \<longrightarrow> 0 < fftwindow (state_of (changethresholds e fw d a w)))
   \<and> 0 \<le> alpha (state_of (changethresholds e fw d a w))
   \<and> alpha (state_of (changethresholds e fw d a w)) \<le> 1
   \<and> dt (state_of (changethresholds e fw d a w)) = d"
  by (simp add: changethresholds_def Let_def calc_settings_keeps min_def)

theorem changethresholds_stores_witness:
  "(0::real) < 3 / 10
   \<and> 0 < fftwindow (state_of (changethresholds example_env (3 / 10) (1 / 10) (1 / 4) example_file_worker))
   \<and> fftwindow (state_of (changethresholds example_env (3 / 10) (1 / 10) (1 / 4) example_file_worker)) = 3 / 10"
  using changethresholds_stores[of example_env "3 / 10" "1 / 10" "1 / 4" example_file_worker]
  by simp

text \<open>
  Claim C5 as stated fails: a negative window length is stored as it is, and the call
  returns.
\<close>

theorem changethresholds_negative_window:
  "returned (changethresholds example_env (- (1 / 2)) 1 0 example_file_worker)
   \<and> fftwindow (state_of (changethresholds example_env (- (1 / 2)) 1 0 example_file_worker))
       = - (1 / 2)
   \<and> \<not> 0 < fftwindow (state_of (changethresholds example_env (- (1 / 2)) 1 0 example_file_worker))"
  by (simp add: changethresholds_def calc_settings_def example_env_def example_file_worker_def
      np_round_def Let_def bin_freq_def mask_select_def emit_def)

subsection \<open>The estimator\<close>

lemma mask_select_prefix:
  "mask_select xs (map (\<lambda>k. k < m) [0 ..< length xs]) = Inr (take m xs)"
proof -
  have "map fst (filter snd (zip xs (map (\<lambda>k. k < m) [0 ..< length xs]))) = nths xs {..<m}"
    by (simp add: nths_def zip_map2 filter_map comp_def case_prod_beta)
  then show ?thesis by (simp add: mask_select_def)
qed

lemma bin_freq_nonneg:
  assumes "0 < d" and "sign_kept e d" and "k < nat n" and "even n"
  shows "0 \<le> bin_freq e d n (int k) \<longleftrightarrow> k < nat (n div 2)"
proof -
  from assms(4) obtain h where h: "n = 2 * h" by (auto elim: evenE)
  have a: "real_of_int (int k) < real_of_int n / 2 \<longleftrightarrow> k < nat (n div 2)"
    unfolding h using assms(3) by (simp add: h) linarith
  have s: "(0 \<le> fl e (d * real_of_int m)) = (0 \<le> d * real_of_int m)" for m
    using assms(2) by (simp add: sign_kept_def)
  have "int k - n < 0" using assms(3) by linarith
  then have "real_of_int (int k - n) < 0" by (simp only: of_int_less_0_iff)
  with assms(1) have "d * real_of_int (int k - n) < 0" by (simp only: mult_pos_neg)
  then have b: "\<not> 0 \<le> fl e (d * real_of_int (int k - n))" unfolding s by (simp only: not_le)
  have "0 \<le> real_of_int (int k)" by simp
  with assms(1) have "0 \<le> d * real_of_int (int k)" by (simp only: mult_nonneg_nonneg less_imp_le)
  then have c: "0 \<le> fl e (d * real_of_int (int k))" unfolding s .
  show ?thesis
  proof (cases "k < nat (n div 2)")
    case True
    with a have "real_of_int (int k) < real_of_int n / 2" by blast
    then have "bin_freq e d n (int k) = fl e (d * real_of_int (int k))"
      by (simp only: bin_freq_def if_True)
    with c True show ?thesis by simp
  next
    case False
    with a have "\<not> real_of_int (int k) < real_of_int n / 2" by blast
    then have "bin_freq e d n (int k) = fl e (d * real_of_int (int k - n))"
      by (simp only: bin_freq_def if_False)
    with b False show ?thesis by simp
  qed
qed

lemma calc_settings_fields:
  assumes "calc_settings e w0 = Returned w"
  shows "N w \<noteq> 0" and "even (N w)"
    and "df w = fl e (real_of_int (fs w0) / real_of_int (N w))"
    and "keepind w =
           map (\<lambda>f. 0 \<le> f) (map (\<lambda>k. bin_freq e (df w) (N w) (int k)) [0 ..< nat (N w)])"
    and "alpha w = alpha w0"
    and "0 < alpha w0 \<Longrightarrow> \<exists>t. taper w = Some t \<and> taperlen w = length t"
  using assms
  by (auto simp add: calc_settings_def Let_def emit_def mask_select_def
      split: sum.splits if_splits)

lemma keepind_calc:
  assumes "calc_settings e w0 = Returned w" and "0 < df w" and "sign_kept e (df w)"
  shows "keepind w = map (\<lambda>k. k < nat (N w div 2)) [0 ..< nat (N w)]"
  unfolding calc_settings_fields(4)[OF assms(1)] map_map
  by (rule map_cong)
    (simp_all add: bin_freq_nonneg[OF assms(2,3) _ calc_settings_fields(2)[OF assms(1)]])

lemma length_psd: "length (psd d zs) = length zs"
  by (simp add: psd_def)

lemma length_dft: "length (dft zs) = length zs"
  by (simp add: dft_def)

lemma dofft_settled:
  assumes "keepind w = map (\<lambda>k. k < m) [0 ..< length pcmdata]"
    and "alpha w \<le> 0 \<or> (\<exists>t. taper w = Some t \<and> taperlen w = length t \<and> length t = length pcmdata)"
    and "pcmdata \<noteq> []"
  shows "\<exists>tapered. apply_taper e w pcmdata = (Inr tapered, w) \<and>
           length tapered = length pcmdata \<and>
           dofft e w pcmdata
             = (Inr (map np_log10 (take m (psd (df w) (dft (map complex_of_real tapered))))), w)"
proof -
  have "\<exists>tapered. apply_taper e w pcmdata = (Inr tapered, w) \<and> length tapered = length pcmdata"
    using assms(2) by (auto simp: apply_taper_def np_mul_def)
  then obtain tapered
    where tp: "apply_taper e w pcmdata = (Inr tapered, w)" "length tapered = length pcmdata"
    by blast
  let ?p = "psd (df w) (dft (map complex_of_real tapered))"
  from tp(2) assms(3) have ne: "tapered \<noteq> []" by auto
  have lp: "length ?p = length pcmdata" by (simp add: length_psd length_dft tp(2))
  have "mask_select ?p (keepind w) = Inr (take m ?p)"
    using mask_select_prefix[of ?p m] by (simp only: assms(1) lp)
  with tp ne show ?thesis by (simp add: dofft_def np_fft_def)
qed

lemma dofft_empty_window: "alpha w \<le> 0 \<Longrightarrow> dofft e w [] = (Inl ValueError, w)"
  by (simp add: dofft_def apply_taper_def np_fft_def)

lemma psd_unit_impulse: "psd 1 (dft [1, 0, 0, 0]) = [Fin 1, Fin 1, Fin 1, Fin 1]"
  by (simp add: psd_def dft_def np_div_def upt_rec lessThan_nat_numeral lessThan_Suc)

text \<open>
  Claim C2, as amended. With settings derived by \<open>calc_settings\<close> that have \<open>0 < N\<close>
  and a positive frequency resolution \<open>df\<close> (as a positive sample rate gives), float
  products with \<open>df\<close> that keep their sign, and the cached taper as long as the window,
  \<open>dofft\<close> on a window of \<open>N\<close> samples returns \<open>log10\<close> of the PSD over exactly the
  bins \<open>0\<close> to \<open>N/2 - 1\<close> (\<open>N/2\<close> values, in order): bin \<open>N/2\<close> has the negative
  frequency \<open>-fs/2\<close> and is left out with the bins above it.
\<close>

theorem dofft_keeps_lower_half:
  assumes "calc_settings e w0 = Returned w" and "0 < N w" and "0 < df w"
    and "sign_kept e (df w)"
    and "length pcmdata = nat (N w)" and "alpha w \<le> 0 \<or> taperlen w = nat (N w)"
  shows "\<exists>tapered. apply_taper e w pcmdata = (Inr tapered, w) \<and> length tapered = nat (N w) \<and>
           dofft e w pcmdata
             = (Inr (map np_log10
                       (take (nat (N w div 2)) (psd (df w) (dft (map complex_of_real tapered))))),
                w) \<and>
           length (take (nat (N w div 2)) (psd (df w) (dft (map complex_of_real tapered))))
             = nat (N w div 2)"
proof -
  have tp: "alpha w \<le> 0 \<or>
        (\<exists>t. taper w = Some t \<and> taperlen w = length t \<and> length t = length pcmdata)"
    using calc_settings_fields(5,6)[OF assms(1)] assms(5,6) by (cases "0 < alpha w") auto
  have ki: "keepind w = map (\<lambda>k. k < nat (N w div 2)) [0 ..< length pcmdata]"
    using keepind_calc[OF assms(1,3,4)] assms(5) by simp
  from assms(2,5) have ne: "pcmdata \<noteq> []" by auto
  from dofft_settled[OF ki tp ne, of e] obtain tapered
    where t: "apply_taper e w pcmdata = (Inr tapered, w)" "length tapered = length pcmdata"
      "dofft e w pcmdata
         = (Inr (map np_log10
                   (take (nat (N w div 2)) (psd (df w) (dft (map complex_of_real tapered))))), w)"
    by blast
  have "length (take (nat (N w div 2)) (psd (df w) (dft (map complex_of_real tapered))))
          = nat (N w div 2)"
    using assms(2,5) t(2) by (simp add: length_psd length_dft)
  with t assms(5) show ?thesis by auto
qed

theorem dofft_keeps_lower_half_witness:
  "dofft example_env example_settled [1, 0, 0, 0] = (Inr [Fin 0, Fin 0], example_settled)"
proof -
  have f: "fs example_file_worker = 4" "N example_settled = 4" "df example_settled = 1"
    "alpha example_settled = 0"
    by (simp_all add: example_settled_def example_file_worker_def)
  have sk: "sign_kept example_env (df example_settled)"
    by (simp add: sign_kept_def example_env_def)
  have "\<exists>tapered. apply_taper example_env example_settled [1, 0, 0, 0] = (Inr tapered, example_settled) \<and>
          length tapered = nat (N example_settled) \<and>
          dofft example_env example_settled [1, 0, 0, 0]
            = (Inr (map np_log10
                      (take (nat (N example_settled div 2))
                         (psd (df example_settled) (dft (map complex_of_real tapered))))),
               example_settled) \<and>
          length (take (nat (N example_settled div 2))
                    (psd (df example_settled) (dft (map complex_of_real tapered))))
            = nat (N example_settled div 2)"
    by (rule dofft_keeps_lower_half[OF calc_settings_example _ _ sk]) (simp_all add: f)
  moreover have "apply_taper example_env example_settled [1, 0, 0, 0] = (Inr [1, 0, 0, 0], example_settled)"
    by (simp add: apply_taper_def f)
  ultimately show ?thesis by (auto simp: f psd_unit_impulse)
qed

text \<open>
  Claim C2 as stated fails: with \<open>N = 4\<close> the estimator returns two values (bins 0 and
  1), not the three of bins 0 to \<open>N/2\<close>.
\<close>

theorem dofft_four_samples_two_bins:
  "N (state_of (calc_settings example_env example_file_worker)) = 4
   \<and> fst (dofft example_env (state_of (calc_settings example_env example_file_worker)) [1, 0, 0, 0])
       = Inr [Fin 0, Fin 0]
   \<and> length [Fin 0, Fin 0] \<noteq> nat (4 div 2 + 1)"
  by (simp add: calc_settings_def example_env_def example_file_worker_def np_round_def Let_def
      bin_freq_def mask_select_def emit_def upt_rec dofft_def apply_taper_def psd_def dft_def
      np_fft_def np_div_def lessThan_nat_numeral lessThan_Suc)

text \<open>
  Claim C3 fails on the code. For the all-zero window the PSD is zero in every bin; zero
  is not infinite, so the replacement by \<open>1.0E-8\<close> does not apply, and \<open>log10\<close>
  returns \<open>-inf\<close> for every kept bin.
\<close>

theorem dofft_zero_window_minus_infinity:
  "dofft example_env example_settled [0, 0, 0, 0] = (Inr [NInf, NInf], example_settled)"
  by (simp add: example_settled_def example_file_worker_def mask_select_def dofft_def
      apply_taper_def psd_def dft_def np_fft_def np_div_def upt_rec)

text \<open>
  Claim C10. When no taper is applied (\<open>alpha \<le> 0\<close>) or the recorded length of the
  cached taper is the window's length, \<open>dofft\<close> leaves the worker as it was, every
  attribute included, and so a second call with the same window returns the same values.
\<close>

theorem dofft_cached_taper_pure:
  assumes "alpha w \<le> 0 \<or> taperlen w = length pcmdata"
  shows "snd (dofft e w pcmdata) = w
       \<and> dofft e (snd (dofft e w pcmdata)) pcmdata = dofft e w pcmdata"
proof -
  from assms have "snd (apply_taper e w pcmdata) = w"
    by (auto simp: apply_taper_def split: option.splits)
  then have "snd (dofft e w pcmdata) = w"
    by (auto simp: dofft_def split: prod.splits sum.splits)
  then show ?thesis by simp
qed

theorem dofft_cached_taper_pure_witness:
  "taperlen (example_settled\<lparr>alpha := 1 / 2, taper := Some [1, 1, 1, 1], taperlen := 4\<rparr>)
     = length [1, 0, 0, 0 :: real]
   \<and> snd (dofft example_env
            (example_settled\<lparr>alpha := 1 / 2, taper := Some [1, 1, 1, 1], taperlen := 4\<rparr>)
            [1, 0, 0, 0])
       = example_settled\<lparr>alpha := 1 / 2, taper := Some [1, 1, 1, 1], taperlen := 4\<rparr>"
  using dofft_cached_taper_pure
    [of "example_settled\<lparr>alpha := 1 / 2, taper := Some [1, 1, 1, 1], taperlen := 4\<rparr>"
        "[1, 0, 0, 0]" example_env]
  by simp

subsection \<open>Termination\<close>

lemma terminate_step:
  assumes "fromAudio w \<or> (wavfile w \<noteq> None \<and> stream w \<noteq> None)"
  shows "returned (terminate r w)" and "reason (state_of (terminate r w)) = r"
    and "\<not> isrunning (state_of (terminate r w))"
    and "emitted (state_of (terminate r w)) = emitted w @ [Terminated (tabID w) r]"
    and "tabID (state_of (terminate r w)) = tabID w"
    and "fromAudio (state_of (terminate r w)) \<or>
         (wavfile (state_of (terminate r w)) \<noteq> None \<and> stream (state_of (terminate r w)) \<noteq> None)"
  using assms
  by (auto simp: terminate_def close_handles_def emit_def Let_def split: option.splits)

lemma terminate_all_effect:
  assumes "fromAudio w \<or> (wavfile w \<noteq> None \<and> stream w \<noteq> None)"
  shows "emitted (terminate_all rs w) = emitted w @ map (Terminated (tabID w)) rs
       \<and> reason (terminate_all rs w) = (if rs = [] then reason w else last rs)"
  using assms
proof (induction rs arbitrary: w)
  case Nil
  then show ?case by (simp add: terminate_all_def)
next
  case (Cons r rs)
  from Cons.IH[OF terminate_step(6)[OF Cons.prems, of r]]
    terminate_step(2,4,5)[OF Cons.prems, of r]
  show ?case by (auto simp: terminate_all_def)
qed

text \<open>
  Claim C8, as amended. \<open>terminate\<close> has no guard: on a worker whose handles are
  assigned (a file-backed worker has none to close) every call stores its reason over the
  earlier one and emits one \<open>terminated\<close> signal. After calls with the reasons
  \<open>rs\<close> the stored reason is the last of them and one signal per call has been emitted,
  in the order of the calls; \<open>abort\<close> is \<open>terminate(0)\<close>.
\<close>

theorem terminate_last_write_wins:
  assumes "fromAudio w \<or> (wavfile w \<noteq> None \<and> stream w \<noteq> None)"
  shows "emitted (terminate_all rs w) = emitted w @ map (Terminated (tabID w)) rs
       \<and> reason (terminate_all (rs @ [r]) w) = r
       \<and> abort w = terminate 0 w"
  using terminate_all_effect[OF assms, of rs] terminate_all_effect[OF assms, of "rs @ [r]"]
  by (simp add: abort_def)

theorem terminate_last_write_wins_witness:
  "fromAudio example_file_worker
   \<and> emitted (terminate_all [1, 4, 0] example_file_worker)
       = [Terminated 7 1, Terminated 7 4, Terminated 7 0]
   \<and> reason (terminate_all ([1, 4] @ [0]) example_file_worker) = 0"
  using terminate_last_write_wins[of example_file_worker "[1, 4, 0]" 0]
    terminate_last_write_wins[of example_file_worker "[1, 4]" 0]
  by (simp add: example_file_worker_def)

text \<open>
  Claim C8 as stated fails: after \<open>terminate(4)\<close> a call of \<open>abort\<close> changes the
  reason from 4 to 0, and the sink has been notified twice.
\<close>

theorem abort_after_terminate_overwrites:
  "reason (state_of (terminate 4 example_file_worker)) = 4
   \<and> reason (state_of (abort (state_of (terminate 4 example_file_worker)))) = 0
   \<and> emitted (state_of (abort (state_of (terminate 4 example_file_worker))))
       = [Terminated 7 4, Terminated 7 0]"
  by (simp add: abort_def terminate_def example_file_worker_def emit_def Let_def)

subsection \<open>The loop and the run\<close>

lemma extends_refl: "extends w w" by (simp add: extends_def)

lemma extends_trans: "extends a b \<Longrightarrow> extends b c \<Longrightarrow> extends a c"
  by (auto simp: extends_def)

lemma records_append: "records (xs @ ys) = records xs @ records ys"
  by (induction xs rule: records.induct) simp_all

lemma terminate_extends: "extends w (state_of (terminate r w))"
  by (simp add: extends_def terminate_def close_handles_def emit_def Let_def split: option.splits)

lemma terminate_records: "records (emitted (state_of (terminate r w))) = records (emitted w)"
  by (simp add: terminate_def close_handles_def emit_def Let_def records_append split: option.splits)

lemma calc_settings_extends: "extends w (state_of (calc_settings e w))"
  by (simp add: extends_def calc_settings_def emit_def mask_select_def Let_def split: sum.splits)

lemma calc_settings_records: "records (emitted (state_of (calc_settings e w))) = records (emitted w)"
  by (simp add: calc_settings_def emit_def mask_select_def Let_def records_append split: sum.splits)

lemma changethresholds_extends: "extends w (state_of (changethresholds e a b c w))"
  using calc_settings_extends[of "w\<lparr>fftwindow := (if a \<le> 1 then a else 1), dt := b, alpha := (if 1 < c then 1 else if c < 0 then 0 else c)\<rparr>" e]
  by (simp add: changethresholds_def Let_def extends_def)

lemma changethresholds_records: "records (emitted (state_of (changethresholds e a b c w))) = records (emitted w)"
  by (simp add: changethresholds_def Let_def calc_settings_records)

lemma updateaudiobuffer_extends: "extends w (updateaudiobuffer w b)"
  using terminate_extends[of "w\<lparr>audiostream := drop (snd b) (audiostream w @ fst b)\<rparr>" 5]
  by (simp add: updateaudiobuffer_def Let_def extends_def)

lemma updateaudiobuffer_records: "records (emitted (updateaudiobuffer w b)) = records (emitted w)"
  by (simp add: updateaudiobuffer_def Let_def terminate_records)

lemma callbacks_extends: "extends w (foldl updateaudiobuffer w bs)"
proof (induction bs arbitrary: w)
  case Nil show ?case by (simp add: extends_refl)
next
  case (Cons b bs)
  from extends_trans[OF updateaudiobuffer_extends Cons.IH] show ?case by simp
qed

lemma callbacks_records: "records (emitted (foldl updateaudiobuffer w bs)) = records (emitted w)"
  by (induction bs arbitrary: w) (simp_all add: updateaudiobuffer_records)

lemma after_cycle_extends: "extends w (after_cycle e t w)"
proof -
  let ?w1 = "if fromAudio w then w else foldl updateaudiobuffer w (arrivals t)"
  let ?w2 = "case reconf t of None \<Rightarrow> ?w1 | Some (a, b, c) \<Rightarrow> state_of (changethresholds_slot e a b c ?w1)"
  have 1: "extends w ?w1" by (simp add: extends_refl callbacks_extends)
  have 2: "extends ?w1 ?w2"
    by (simp add: extends_refl changethresholds_slot_def changethresholds_extends split: option.splits)
  have 3: "extends ?w2 (if stop t then state_of (abort ?w2) else ?w2)"
    by (simp add: extends_refl abort_def terminate_extends)
  from extends_trans[OF extends_trans[OF 1 2] 3] show ?thesis
    by (simp add: after_cycle_def Let_def)
qed

lemma after_cycle_records: "records (emitted (after_cycle e t w)) = records (emitted w)"
  by (simp add: after_cycle_def Let_def abort_def terminate_records changethresholds_slot_def
      changethresholds_records callbacks_records split: option.splits)



lemma dofft_snd: "snd (dofft e w p) = snd (apply_taper e w p)"
  by (simp add: dofft_def split: prod.splits sum.splits)

lemma apply_taper_snd:
  "snd (apply_taper e w p) = w \<or> (\<exists>t. snd (apply_taper e w p) = w\<lparr>taper := Some t\<rparr>)"
  by (simp add: apply_taper_def split: sum.splits option.splits) blast

lemma dofft_extends:
  assumes "dofft e w p = (r, w1)"
  shows "extends w w1" and "emitted w1 = emitted w" and "isrunning w1 = isrunning w"
proof -
  from assms have "w1 = snd (apply_taper e w p)" using dofft_snd[of e w p] by simp
  with apply_taper_snd[of e w p] have "w1 = w \<or> (\<exists>t. w1 = w\<lparr>taper := Some t\<rparr>)" by simp
  then show "extends w w1" and "emitted w1 = emitted w" and "isrunning w1 = isrunning w"
    by (auto simp: extends_def)
qed


lemma future_extends: "extends w w' \<Longrightarrow> future tm w' k ts c = future tm w k ts c"
  by (simp add: extends_def future_def)

lemma future_next: "future tm w k (t # ts) c \<Longrightarrow> future tm w (Suc k) ts c"
  by (simp add: future_def split: if_splits)

lemma ordered_snoc:
  assumes "ordered tm rs" and "\<forall>(j, c) \<in> set rs. j < i \<and> (tm \<longrightarrow> c \<le> x)"
  shows "ordered tm (rs @ [(i, x)])"
  using assms by (auto simp: ordered_def sorted_wrt_append sorted_append)

lemma loop_cycle:
  assumes "isrunning w" and "fromAudio w \<Longrightarrow> k < maxnum w"
    and "fromAudio w \<Longrightarrow> k < length (sampletimes w)"
  shows "loop e w k (t # ts) =
     (case read_window w t k of
        None \<Rightarrow> loop e (after_cycle e t w) (Suc k) ts
      | Some pcmdata \<Rightarrow>
          (case dofft e w (map real_of_int pcmdata) of
             (Inl err, w1) \<Rightarrow> Raised err w1
           | (Inr spectra, w1) \<Rightarrow>
               loop e
                 (after_cycle e t
                    (emit (Iterated (int k) (maxnum w1) (tabID w1) (sample_time w t k) spectra) w1))
                 (Suc k) ts))"
  using assms by auto

lemma loop_ordered:
  assumes "ordered tm (records (emitted w))"
    and "\<forall>(j, c) \<in> set (records (emitted w)). j < int k \<and> future tm w k ts c"
    and "tm \<Longrightarrow> fromAudio w \<Longrightarrow> sorted (sampletimes w)"
    and "tm \<Longrightarrow> \<not> fromAudio w \<Longrightarrow> sorted (map clock ts)"
  shows "ordered tm (records (emitted (state_of (loop e w k ts))))"
  using assms
proof (induction ts arbitrary: w k)
  case Nil
  then show ?case by simp
next
  case (Cons t ts)
  note inv = Cons.prems
  have step: "ordered tm (records (emitted (state_of (loop e w' (Suc k) ts))))"
    if ext: "extends w w'" and recs: "records (emitted w') = records (emitted w) @ extra"
      and ex: "extra = [] \<or> extra = [(int k, sample_time w t k)]"
      and avail: "fromAudio w \<Longrightarrow> k < length (sampletimes w)"
    for w' extra
  proof (rule Cons.IH)
    have old_le: "c \<le> sample_time w t k" if "(j, c) \<in> set (records (emitted w))" and tm for j c
    proof -
      from inv(2) that have f: "future tm w k (t # ts) c" by auto
      show ?thesis
      proof (cases "fromAudio w")
        case True
        with f avail \<open>tm\<close> show ?thesis by (simp add: future_def sample_time_def)
      next
        case False
        with f \<open>tm\<close> show ?thesis by (simp add: future_def sample_time_def)
      qed
    qed
    show "ordered tm (records (emitted w'))"
    proof (cases "extra = []")
      case True
      with recs inv(1) show ?thesis by simp
    next
      case False
      with ex have e: "extra = [(int k, sample_time w t k)]" by simp
      have "ordered tm (records (emitted w) @ [(int k, sample_time w t k)])"
        using inv(1) inv(2) old_le by (intro ordered_snoc) auto
      with recs e show ?thesis by simp
    qed
    have new_future: "future tm w (Suc k) ts (sample_time w t k)"
    proof (cases tm)
      case tm: True
      show ?thesis
      proof (cases "fromAudio w")
        case True
        with inv(3)[OF tm] avail show ?thesis
          by (auto simp: future_def sample_time_def intro: sorted_nth_mono)
      next
        case False
        with inv(4)[OF tm] show ?thesis by (auto simp: future_def sample_time_def)
      qed
    next
      case False
      then show ?thesis by (simp add: future_def)
    qed
    show "\<forall>(j, c) \<in> set (records (emitted w')). j < int (Suc k) \<and> future tm w' (Suc k) ts c"
    proof (clarify)
      fix j c assume m: "(j, c) \<in> set (records (emitted w'))"
      with recs ex have "(j, c) \<in> set (records (emitted w)) \<or> (j, c) = (int k, sample_time w t k)"
        by auto
      then show "j < int (Suc k) \<and> future tm w' (Suc k) ts c"
      proof
        assume "(j, c) \<in> set (records (emitted w))"
        with inv(2) have "j < int k" "future tm w k (t # ts) c" by auto
        with future_next[of tm w k t ts c] future_extends[OF ext] show ?thesis by simp
      next
        assume "(j, c) = (int k, sample_time w t k)"
        with new_future future_extends[OF ext] show ?thesis by simp
      qed
    qed
    show "sorted (sampletimes w')" if tm and "fromAudio w'"
      using that inv(3) ext by (simp add: extends_def)
    show "sorted (map clock ts)" if tm and "\<not> fromAudio w'"
      using that inv(4) ext by (simp add: extends_def)
  qed
  show ?case
  proof (cases "\<not> isrunning w \<or> (fromAudio w \<and> \<not> k < maxnum w) \<or> (fromAudio w \<and> \<not> k < length (sampletimes w))")
    case True
    then show ?thesis using inv(1) by (auto simp: terminate_records)
  next
    case False
    then have run: "isrunning w" "fromAudio w \<Longrightarrow> k < maxnum w" "fromAudio w \<Longrightarrow> k < length (sampletimes w)"
      by auto
    note lc = loop_cycle[of w k e t ts, OF run]
    show ?thesis
    proof (cases "read_window w t k")
      case None
      have "ordered tm (records (emitted (state_of (loop e (after_cycle e t w) (Suc k) ts))))"
        by (rule step[where extra = "[]", OF after_cycle_extends]) (simp_all add: after_cycle_records run(3))
      with None show ?thesis by (simp add: lc del: loop.simps)
    next
      case (Some p)
      obtain r w1 where d: "dofft e w (map real_of_int p) = (r, w1)" by (cases "dofft e w (map real_of_int p)")
      show ?thesis
      proof (cases r)
        case (Inl err)
        with Some d inv(1) dofft_extends(2)[OF d] show ?thesis by (simp add: lc del: loop.simps)
      next
        case (Inr spectra)
        let ?w2 = "emit (Iterated (int k) (maxnum w1) (tabID w1) (sample_time w t k) spectra) w1"
        have e2: "extends w ?w2"
          using dofft_extends(1)[OF d] by (simp add: extends_def emit_def)
        have "ordered tm (records (emitted (state_of (loop e (after_cycle e t ?w2) (Suc k) ts))))"
          by (rule step[where extra = "[(int k, sample_time w t k)]", OF extends_trans[OF e2 after_cycle_extends]])
            (simp_all add: after_cycle_records emit_def records_append dofft_extends(2)[OF d] run(3))
        with Some d Inr show ?thesis by (simp add: lc del: loop.simps)
      qed
    qed
  qed
qed

lemma loop_prefix: "prefix (emitted w) (emitted (state_of (loop e w k ts)))"
proof (induction ts arbitrary: w k)
  case Nil
  show ?case by simp
next
  case (Cons t ts)
  have p_after: "prefix (emitted w) (emitted (state_of (loop e (after_cycle e t w') (Suc k) ts)))"
    if "prefix (emitted w) (emitted w')" for w'
  proof -
    have a: "prefix (emitted w') (emitted (after_cycle e t w'))"
      using after_cycle_extends[of w' e t] by (simp add: extends_def)
    show ?thesis
      by (rule prefix_order.trans[OF that prefix_order.trans[OF a Cons.IH]])
  qed
  show ?case
  proof (cases "\<not> isrunning w \<or> (fromAudio w \<and> \<not> k < maxnum w) \<or> (fromAudio w \<and> \<not> k < length (sampletimes w))")
    case True
    then show ?thesis using terminate_extends[of w 0] by (auto simp: extends_def)
  next
    case False
    then have run: "isrunning w" "fromAudio w \<Longrightarrow> k < maxnum w" "fromAudio w \<Longrightarrow> k < length (sampletimes w)"
      by auto
    note lc = loop_cycle[of w k e t ts, OF run]
    show ?thesis
    proof (cases "read_window w t k")
      case None
      with p_after[of w] show ?thesis by (simp add: lc del: loop.simps)
    next
      case (Some p)
      obtain r w1 where d: "dofft e w (map real_of_int p) = (r, w1)" by (cases "dofft e w (map real_of_int p)")
      show ?thesis
      proof (cases r)
        case (Inl err)
        with Some d dofft_extends(2)[OF d] show ?thesis by (simp add: lc del: loop.simps)
      next
        case (Inr spectra)
        let ?w2 = "emit (Iterated (int k) (maxnum w1) (tabID w1) (sample_time w t k) spectra) w1"
        have "prefix (emitted w) (emitted ?w2)" by (simp add: emit_def dofft_extends(2)[OF d])
        from p_after[OF this] Some d Inr show ?thesis by (simp add: lc del: loop.simps)
      qed
    qed
  qed
qed

lemma cycle_emits:
  assumes "isrunning w" and "fromAudio w \<Longrightarrow> k < maxnum w \<and> k < length (sampletimes w)"
    and "read_window w t k = Some p" and "dofft e w (map real_of_int p) = (Inr spectra, w1)"
  shows "prefix (emitted w @ [Iterated (int k) (maxnum w) (tabID w) (sample_time w t k) spectra])
           (emitted (state_of (loop e w k (t # ts))))"
proof -
  let ?w2 = "emit (Iterated (int k) (maxnum w1) (tabID w1) (sample_time w t k) spectra) w1"
  have lc: "loop e w k (t # ts) = loop e (after_cycle e t ?w2) (Suc k) ts"
    using assms by (simp add: loop_cycle del: loop.simps)
  have a: "emitted ?w2 = emitted w @ [Iterated (int k) (maxnum w) (tabID w) (sample_time w t k) spectra]"
    using dofft_extends[OF assms(4)] by (simp add: emit_def extends_def)
  have b: "prefix (emitted ?w2) (emitted (after_cycle e t ?w2))"
    using after_cycle_extends[of ?w2 e t] by (simp add: extends_def)
  have "prefix (emitted ?w2) (emitted (state_of (loop e (after_cycle e t ?w2) (Suc k) ts)))"
    by (rule prefix_order.trans[OF b loop_prefix])
  then show ?thesis unfolding lc a .
qed

lemma barrier_cases:
  "barrier w c = None \<or> barrier w c = Some (Returned w) \<or> barrier w c = Some (terminate 3 w)"
proof (induction w c rule: barrier.induct)
  case (1 w counts)
  show ?case
  proof (cases "\<not> isrunning w \<and> reason w = 0 \<and> \<not> 100 < counts + 1")
    case True
    then have "barrier w counts = barrier w (counts + 1)" by (subst barrier.simps) simp
    with 1[of] True show ?thesis by simp
  next
    case False
    then show ?thesis by (subst (1 2 3) barrier.simps) auto
  qed
qed

lemma arange_mono:
  assumes "\<forall>x y. x \<le> y \<longrightarrow> fl e x \<le> fl e y" and "0 < step"
  shows "sorted (map (\<lambda>k. fl e (real k * step)) [0 ..< n])"
proof (induction n)
  case 0
  show ?case by simp
next
  case (Suc n)
  have "fl e (real k * step) \<le> fl e (real n * step)" if "k < n" for k
  proof -
    from that assms(2) have "real k * step \<le> real n * step" by (simp add: mult_right_mono)
    with assms(1) show ?thesis by blast
  qed
  with Suc show ?case by (auto simp: sorted_append)
qed

lemma rounding_sign:
  assumes "rounding_monotone e"
  shows "x \<le> 0 \<Longrightarrow> fl e x \<le> 0" and "0 \<le> x \<Longrightarrow> 0 \<le> fl e x"
proof -
  from assms have m: "a \<le> b \<Longrightarrow> fl e a \<le> fl e b" for a b
    unfolding rounding_monotone_def by blast
  from assms have z: "fl e 0 = 0" unfolding rounding_monotone_def by blast
  show "fl e x \<le> 0" if "x \<le> 0" using m[OF that] z by simp
  show "0 \<le> fl e x" if "0 \<le> x" using m[OF that] z by simp
qed

lemma np_arange_sorted:
  assumes "np_arange e stp step = Inr ts" and "0 \<le> stp" and "rounding_monotone e"
  shows "sorted ts"
proof (cases "0 < step")
  case True
  with assms(1)
  have "ts = map (\<lambda>k. fl e (real k * step)) [0 ..< nat \<lceil>fl e (stp / step)\<rceil>]"
    by (simp add: np_arange_def)
  moreover from assms(3) have "\<forall>x y. x \<le> y \<longrightarrow> fl e x \<le> fl e y"
    by (simp add: rounding_monotone_def)
  ultimately show ?thesis using arange_mono[OF _ True] by simp
next
  case False
  with assms(1) have neg: "step < 0" by (auto simp: np_arange_def split: if_splits)
  with assms(2) have "stp / step \<le> 0" by (simp add: divide_nonneg_neg)
  then have "fl e (stp / step) \<le> 0" by (rule rounding_sign(1)[OF assms(3)])
  then have "nat \<lceil>fl e (stp / step)\<rceil> = 0" by simp
  with assms(1) neg show ?thesis by (auto simp: np_arange_def)
qed

lemma file_setup_keeps:
  "emitted (state_of (file_setup e w)) = emitted w"
  "fromAudio (state_of (file_setup e w)) = fromAudio w"
  by (simp_all add: file_setup_def split: sum.splits)

lemma file_setup_sorted:
  assumes "0 \<le> fs w" and "rounding_monotone e" and "file_setup e w = Returned w'"
  shows "sorted (sampletimes w')"
proof -
  let ?stop = "fl e (real (lensignal w) / real_of_int (fs w))"
  from assms(3) have nz: "fs w \<noteq> 0" by (auto simp: file_setup_def)
  obtain ts where ts: "np_arange e ?stop (dt w) = Inr ts"
    using assms(3) nz by (cases "np_arange e ?stop (dt w)") (simp_all add: file_setup_def)
  with assms(3) nz have s: "sampletimes w' = ts" by (auto simp: file_setup_def)
  from assms(1) have "0 \<le> real (lensignal w) / real_of_int (fs w)" by simp
  then have "0 \<le> ?stop" by (rule rounding_sign(2)[OF assms(2)])
  from np_arange_sorted[OF ts this assms(2)] s show ?thesis by simp
qed

lemma device_setup_keeps:
  "records (emitted (state_of (device_setup e w))) = records (emitted w)"
  "prefix (emitted w) (emitted (state_of (device_setup e w)))"
  "fromAudio (state_of (device_setup e w)) = fromAudio w"
proof -
  let ?w1 = "w\<lparr>maxnum := 0\<rparr>"
  have c: "state_of (device_setup e w) = ?w1\<lparr>stream := Some Open\<rparr> \<or>
           state_of (device_setup e w) = state_of (terminate 2 ?w1)"
    by (simp add: device_setup_def Let_def split: option.splits)
  have t: "records (emitted (state_of (terminate 2 ?w1))) = records (emitted w)"
    "prefix (emitted w) (emitted (state_of (terminate 2 ?w1)))"
    "fromAudio (state_of (terminate 2 ?w1)) = fromAudio w"
    using terminate_records[of 2 ?w1] terminate_extends[of ?w1 2] by (simp_all add: extends_def)
  from c t show "records (emitted (state_of (device_setup e w))) = records (emitted w)"
    by (elim disjE) simp_all
  from c t show "prefix (emitted w) (emitted (state_of (device_setup e w)))"
    by (elim disjE) simp_all
  from c t show "fromAudio (state_of (device_setup e w)) = fromAudio w"
    by (elim disjE) simp_all
qed

lemma changethresholds_fs: "fs (state_of (changethresholds e a b c w)) = fs w"
  "fromAudio (state_of (changethresholds e a b c w)) = fromAudio w"
  using changethresholds_extends[of w e a b c]
  by (simp_all add: changethresholds_def Let_def calc_settings_keeps extends_def)

lemma catch_state:
  "records (emitted (state_of (case out of Raised err w3 \<Rightarrow> terminate 4 (w3\<lparr>isrunning := False\<rparr>)
                                | Returned w3 \<Rightarrow> Returned w3)))
     = records (emitted (state_of out))"
  "prefix (emitted (state_of out))
     (emitted (state_of (case out of Raised err w3 \<Rightarrow> terminate 4 (w3\<lparr>isrunning := False\<rparr>)
                                | Returned w3 \<Rightarrow> Returned w3)))"
proof -
  show "records (emitted (state_of (case out of Raised err w3 \<Rightarrow> terminate 4 (w3\<lparr>isrunning := False\<rparr>)
                                | Returned w3 \<Rightarrow> Returned w3)))
     = records (emitted (state_of out))"
  proof (cases out)
    case (Raised err w3)
    with terminate_records[of 4 "w3\<lparr>isrunning := False\<rparr>"] show ?thesis by simp
  qed simp
  show "prefix (emitted (state_of out))
     (emitted (state_of (case out of Raised err w3 \<Rightarrow> terminate 4 (w3\<lparr>isrunning := False\<rparr>)
                                | Returned w3 \<Rightarrow> Returned w3)))"
  proof (cases out)
    case (Raised err w3)
    with terminate_extends[of "w3\<lparr>isrunning := False\<rparr>" 4] show ?thesis by (simp add: extends_def)
  qed simp
qed

lemma run_body_ordered:
  fixes e :: env and w :: worker and ticks :: "tick list" and tm :: bool
  assumes "records (emitted w) = []"
    and "tm \<Longrightarrow> fromAudio w \<Longrightarrow> 0 \<le> fs w \<and> rounding_monotone e"
    and "tm \<Longrightarrow> \<not> fromAudio w \<Longrightarrow> sorted (map clock ticks)"
  defines "body \<equiv> and_then (changethresholds e (fftwindow w) (dt w) (alpha w) w)
              (\<lambda>w1. and_then (if fromAudio w1 then file_setup e w1 else device_setup e w1)
                 (\<lambda>w2. case loop e w2 0 ticks of
                          Raised err w3 \<Rightarrow> terminate 4 (w3\<lparr>isrunning := False\<rparr>)
                        | Returned w3 \<Rightarrow> Returned w3))"
  shows "ordered tm (records (emitted (state_of body)))"
    and "prefix (emitted w) (emitted (state_of body))"
proof -
  let ?o1 = "changethresholds e (fftwindow w) (dt w) (alpha w) w"
  have r1: "records (emitted (state_of ?o1)) = []" "prefix (emitted w) (emitted (state_of ?o1))"
    "fromAudio (state_of ?o1) = fromAudio w" "fs (state_of ?o1) = fs w"
    using changethresholds_extends[of w e "fftwindow w" "dt w" "alpha w"]
    by (simp_all add: changethresholds_records assms(1) changethresholds_fs extends_def)
  have "ordered tm (records (emitted (state_of body))) \<and> prefix (emitted w) (emitted (state_of body))"
  proof (cases ?o1)
    case (Raised err w1)
    with r1 show ?thesis by (simp add: body_def ordered_def)
  next
    case (Returned w1)
    let ?o2 = "if fromAudio w1 then file_setup e w1 else device_setup e w1"
    from Returned r1 have w1: "records (emitted w1) = []" "prefix (emitted w) (emitted w1)"
      "fromAudio w1 = fromAudio w" "fs w1 = fs w" by simp_all
    have r2: "records (emitted (state_of ?o2)) = []" "prefix (emitted w) (emitted (state_of ?o2))"
      "fromAudio (state_of ?o2) = fromAudio w"
      using w1 device_setup_keeps[where e = e and w = w1]
      by (auto simp: file_setup_keeps intro: prefix_order.trans)
    show ?thesis
    proof (cases ?o2)
      case (Raised err w2)
      with r2 Returned show ?thesis by (simp add: body_def ordered_def)
    next
      case R2: (Returned w2)
      with r2 have w2: "records (emitted w2) = []" "prefix (emitted w) (emitted w2)"
        "fromAudio w2 = fromAudio w" by simp_all
      have srt: "sorted (sampletimes w2)" if tm and "fromAudio w2"
      proof -
        from that w2(3) w1(3) R2 have "file_setup e w1 = Returned w2" by simp
        moreover from that w2(3) assms(2) w1(4) have "0 \<le> fs w1" "rounding_monotone e"
          by simp_all
        ultimately show ?thesis using file_setup_sorted by blast
      qed
      have lo: "ordered tm (records (emitted (state_of (loop e w2 0 ticks))))"
      proof (rule loop_ordered)
        show "ordered tm (records (emitted w2))" by (simp add: w2(1) ordered_def)
        show "\<forall>(j, c) \<in> set (records (emitted w2)). j < int 0 \<and> future tm w2 0 ticks c"
          by (simp add: w2(1))
        show "sorted (sampletimes w2)" if tm and "fromAudio w2" using that by (rule srt)
        show "sorted (map clock ticks)" if tm and "\<not> fromAudio w2"
          using that assms(3) w2(3) by simp
      qed
      have lp: "prefix (emitted w) (emitted (state_of (loop e w2 0 ticks)))"
        by (rule prefix_order.trans[OF w2(2) loop_prefix])
      from lo lp catch_state[of "loop e w2 0 ticks"] Returned R2 show ?thesis
        by (auto simp: body_def intro: prefix_order.trans)
    qed
  qed
  then show "ordered tm (records (emitted (state_of body)))"
    and "prefix (emitted w) (emitted (state_of body))"
    by simp_all
qed

lemma run_ordered:
  assumes "records (emitted w) = []"
    and "tm \<Longrightarrow> fromAudio w \<Longrightarrow> 0 \<le> fs w \<and> rounding_monotone e"
    and "tm \<Longrightarrow> \<not> fromAudio w \<Longrightarrow> sorted (map clock ticks)"
  shows "ordered tm (records (emitted (state_of (run e w ticks))))"
    and "prefix (emitted w) (emitted (state_of (run e w ticks)))"
proof -
  note b = run_body_ordered[where e = e and w = w and ticks = ticks and tm = tm, OF assms]
  have t3: "records (emitted (state_of (terminate 3 w))) = []"
    "prefix (emitted w) (emitted (state_of (terminate 3 w)))"
    using terminate_extends[of w 3] by (simp_all add: terminate_records assms(1) extends_def)
  from barrier_cases[of w 0]
  show "ordered tm (records (emitted (state_of (run e w ticks))))"
    using b(1) t3(1) assms(1) by (auto simp: run_def ordered_def)
  from barrier_cases[of w 0]
  show "prefix (emitted w) (emitted (state_of (run e w ticks)))"
    using b(2) t3(2) by (auto simp: run_def)
qed

lemma after_cycle_quiet: "after_cycle e (quiet c) w = w"
  by (simp add: after_cycle_def quiet_def)

lemma barrier_running: "isrunning w \<Longrightarrow> barrier w c = None"
  by (subst barrier.simps) simp

lemma barrier_terminated: "\<not> isrunning w \<Longrightarrow> reason w \<noteq> 0 \<Longrightarrow> barrier w c = Some (Returned w)"
  by (subst barrier.simps) simp

lemma run_terminated: "reason w \<noteq> 0 \<Longrightarrow> run e w ticks = Returned w"
  by (cases "isrunning w") (simp_all add: run_def barrier_running barrier_terminated)

lemma changethresholds_example:
  "changethresholds example_env 1 (1 / 2) 0 example_file_worker = Returned example_settled"
  by (simp add: changethresholds_def calc_settings_def example_env_def example_file_worker_def
      example_settled_def np_round_def Let_def bin_freq_def mask_select_def emit_def upt_rec)

lemma file_setup_example: "file_setup example_env example_settled = Returned example_running"
  by (simp add: file_setup_def np_arange_def example_running_def example_settled_def
      example_file_worker_def example_env_def upt_rec)

lemma example_running_fields:
  "isrunning example_running" "fromAudio example_running" "maxnum example_running = 4"
  "sampletimes example_running = [0, 1 / 2, 1, 3 / 2]" "reason example_running = 0"
  "emitted example_running = [StatsUpdated 7 4 1 4 [0, 1]]" "tabID example_running = 7"
  by (simp_all add: example_running_def example_settled_def example_file_worker_def)

lemma read_window_example:
  "read_window example_running t 0 = None"
  "read_window example_running t 1 = Some [1, 0, 0, 0]"
  "read_window example_running t 2 = Some [0, 0, 0, 0]"
  "read_window example_running t 3 = None"
  by (simp_all add: read_window_def sample_time_def file_window_def np_round_def py_trunc_def
      py_slice_def py_bound_def Let_def example_running_def example_settled_def
      example_file_worker_def)

lemma loop_example_first: "loop example_env example_running 0 [quiet 0] = Returned example_running"
  by (simp add: example_running_fields read_window_example after_cycle_quiet)

lemma run_example_first:
  "run example_env example_file_worker [quiet 0] = Returned example_running"
proof -
  have f: "isrunning example_file_worker" "reason example_file_worker = 0"
    "fftwindow example_file_worker = 1" "dt example_file_worker = 1 / 2"
    "alpha example_file_worker = 0" "fromAudio example_settled"
    by (simp_all add: example_settled_def example_file_worker_def)
  show ?thesis
    by (simp add: run_def barrier_running f changethresholds_example file_setup_example
        loop_example_first del: loop.simps)
qed

lemma dofft_example_running:
  "dofft example_env example_running [1, 0, 0, 0] = (Inr [Fin 0, Fin 0], example_running)"
  "dofft example_env example_running [0, 0, 0, 0] = (Inr [NInf, NInf], example_running)"
  by (simp_all add: example_running_def example_settled_def example_file_worker_def
      mask_select_def dofft_def apply_taper_def psd_def dft_def np_fft_def np_div_def upt_rec
      lessThan_nat_numeral lessThan_Suc)

lemma terminate_file:
  "fromAudio w \<Longrightarrow>
     terminate r w = Returned (w\<lparr>reason := r, isrunning := False,
                                emitted := emitted w @ [Terminated (tabID w) r]\<rparr>)"
  by (simp add: terminate_def emit_def Let_def)

lemma dofft_no_taper:
  "alpha w \<le> 0 \<Longrightarrow> p \<noteq> [] \<Longrightarrow>
     dofft e w p = (case mask_select (psd (df w) (dft (map complex_of_real p))) (keepind w) of
                      Inl err \<Rightarrow> (Inl err, w)
                    | Inr kept \<Rightarrow> (Inr (map np_log10 kept), w))"
  by (simp add: dofft_def apply_taper_def np_fft_def)

lemma psd_zero_window: "psd 1 (dft [0, 0, 0, 0]) = [Fin 0, Fin 0, Fin 0, Fin 0]"
  by (simp add: psd_def dft_def np_div_def upt_rec)

lemma example_running_settings:
  "alpha example_running = 0" "df example_running = 1"
  "keepind example_running = [True, True, False, False]" "N example_running = 4"
  "fs example_running = 4" "lensignal example_running = 8"
  "audiostream example_running = [1, 0, 0, 0, 0, 0, 0, 0]"
  by (simp_all add: example_running_def example_settled_def example_file_worker_def)

lemma loop_example_whole:
  "loop example_env example_running 0 [quiet 0, quiet 0, quiet 0, quiet 0, quiet 0]
     = Returned (example_running
         \<lparr>reason := 0, isrunning := False,
          emitted := [StatsUpdated 7 4 1 4 [0, 1], Iterated 1 4 7 (1 / 2) [Fin 0, Fin 0],
                      Iterated 2 4 7 1 [NInf, NInf], Terminated 7 0]\<rparr>)"
  by (simp add: example_running_fields example_running_settings after_cycle_quiet
      read_window_def sample_time_def file_window_def np_round_def py_trunc_def py_slice_def
      py_bound_def Let_def emit_def dofft_no_taper mask_select_def psd_unit_impulse
      psd_zero_window terminate_file)

lemma run_example_whole:
  "run example_env example_file_worker [quiet 0, quiet 0, quiet 0, quiet 0, quiet 0]
     = Returned (example_running
         \<lparr>reason := 0, isrunning := False,
          emitted := [StatsUpdated 7 4 1 4 [0, 1], Iterated 1 4 7 (1 / 2) [Fin 0, Fin 0],
                      Iterated 2 4 7 1 [NInf, NInf], Terminated 7 0]\<rparr>)"
proof -
  have f: "isrunning example_file_worker" "reason example_file_worker = 0"
    "fftwindow example_file_worker = 1" "dt example_file_worker = 1 / 2"
    "alpha example_file_worker = 0" "fromAudio example_settled"
    by (simp_all add: example_settled_def example_file_worker_def)
  show ?thesis
    by (simp add: run_def barrier_running f changethresholds_example file_setup_example
        loop_example_whole del: loop.simps)
qed

text \<open>
  Claim C4, as amended. In the loop of a running worker, a cycle whose read returns no
  window emits nothing and does not terminate: the loop goes on with the next cycle, and
  if nothing arrives from outside the worker is left exactly as it was. A file-backed
  worker terminates with reason 0 (ok) when the iteration index has reached the number of
  grid times.
\<close>

theorem loop_missing_window_skips:
  assumes "isrunning w"
  shows "((fromAudio w \<longrightarrow> k < maxnum w \<and> k < length (sampletimes w)) \<and> read_window w t k = None
            \<longrightarrow> loop e w k (t # ts) = loop e (after_cycle e t w) (Suc k) ts
                \<and> loop e w k [quiet c] = Returned w)
       \<and> (fromAudio w \<and> \<not> k < maxnum w
            \<longrightarrow> loop e w k (t # ts)
                  = Returned (w\<lparr>reason := 0, isrunning := False,
                                emitted := emitted w @ [Terminated (tabID w) 0]\<rparr>))"
proof (intro conjI impI)
  assume a: "(fromAudio w \<longrightarrow> k < maxnum w \<and> k < length (sampletimes w)) \<and> read_window w t k = None"
  then have fa: "fromAudio w" by (auto simp: read_window_def split: if_splits)
  with a have q: "read_window w (quiet c) k = None" by (simp add: read_window_def sample_time_def)
  from a assms show "loop e w k (t # ts) = loop e (after_cycle e t w) (Suc k) ts"
    by (simp add: loop_cycle del: loop.simps)
  from a assms q show "loop e w k [quiet c] = Returned w"
    by (simp add: loop_cycle after_cycle_quiet del: loop.simps) simp
next
  assume "fromAudio w \<and> \<not> k < maxnum w"
  with assms show "loop e w k (t # ts)
      = Returned (w\<lparr>reason := 0, isrunning := False, emitted := emitted w @ [Terminated (tabID w) 0]\<rparr>)"
    by (simp add: terminate_file)
qed

theorem loop_missing_window_skips_witness:
  "isrunning example_running \<and> read_window example_running (quiet 0) 0 = None
   \<and> loop example_env example_running 0 [quiet 0] = Returned example_running
   \<and> loop example_env example_running 4 [quiet 0]
       = Returned (example_running\<lparr>reason := 0, isrunning := False,
            emitted := [StatsUpdated 7 4 1 4 [0, 1], Terminated 7 0]\<rparr>)"
proof -
  have r: "isrunning example_running" by (simp add: example_running_fields)
  have a: "loop example_env example_running 0 [quiet 0] = Returned example_running"
    by (rule loop_missing_window_skips[where w = example_running and k = 0 and t = "quiet 0"
          and ts = "[]" and e = example_env and c = 0, OF r, THEN conjunct1, THEN mp,
          THEN conjunct2])
      (simp add: example_running_fields read_window_example)
  have b: "loop example_env example_running 4 [quiet 0]
       = Returned (example_running\<lparr>reason := 0, isrunning := False,
            emitted := [StatsUpdated 7 4 1 4 [0, 1], Terminated 7 0]\<rparr>)"
    using loop_missing_window_skips[where w = example_running and k = 4 and t = "quiet 0"
        and ts = "[]" and e = example_env and c = 0, OF r]
    by (simp add: example_running_fields del: loop.simps)
  from r a b show ?thesis by (simp add: read_window_example del: loop.simps)
qed

text \<open>
  Claim C4 as stated fails: in the first cycle of the example file the window around time
  0 would start before the buffer, the read returns no window, and the worker is still
  running afterwards, with no \<open>terminated\<close> signal emitted.
\<close>

theorem file_run_first_window_missing:
  "read_window example_running (quiet 0) 0 = None
   \<and> run example_env example_file_worker [quiet 0] = Returned example_running
   \<and> isrunning example_running
   \<and> emitted example_running = [StatsUpdated 7 4 1 4 [0, 1]]"
  by (simp add: run_example_first read_window_example example_running_fields)



lemma init_file_missing:
  assumes "parse_int e (py_slice datasource 4 9) = Some chnum"
    and "\<not> file_exists e (drop 10 datasource)"
  shows "reason (state_of (init_file e datasource w)) = 1"
    and "emitted (state_of (init_file e datasource w)) = emitted w @ [Terminated (tabID w) 1]"
    and "copy_file e (drop 10 datasource) (wavfilename w) \<noteq> None \<Longrightarrow>
           \<not> returned (init_file e datasource w) \<and>
           isrunning (state_of (init_file e datasource w)) = False"
  using assms
  by (simp_all add: init_file_def terminate_file Let_def split: option.splits sum.splits prod.splits)

text \<open>
  Claim C6. Constructing a file-backed worker on a path that does not exist calls
  \<open>terminate(1)\<close>: the reason is 1 and the one signal emitted is \<open>terminated\<close>
  with reason 1. No spectral record is ever emitted and the loop is never entered:
  \<open>run\<close> on the worker left behind returns at once and changes nothing. When copying
  the missing file raises, as \<open>shutil.copy\<close> does, the constructor raises and
  \<open>isrunning\<close> stays false.
\<close>

theorem init_missing_file_terminates:
  assumes "take 3 datasource = ''AAA''"
    and "parse_int e (py_slice datasource 4 9) = Some chnum"
    and "\<not> file_exists e (drop 10 datasource)"
  shows "reason (state_of (init e datasource savedir slash tab st fw d a)) = 1
       \<and> emitted (state_of (init e datasource savedir slash tab st fw d a)) = [Terminated tab 1]
       \<and> run e (state_of (init e datasource savedir slash tab st fw d a)) ticks
           = Returned (state_of (init e datasource savedir slash tab st fw d a))
       \<and> (copy_file e (drop 10 datasource) (savedir @ slash @ ''tempwav_'' @ py_str tab @ ''.WAV'') \<noteq> None
            \<longrightarrow> \<not> returned (init e datasource savedir slash tab st fw d a)
                \<and> \<not> isrunning (state_of (init e datasource savedir slash tab st fw d a)))"
proof -
  let ?w = "fresh savedir slash tab st fw d a"
  let ?o = "init_file e datasource ?w"
  have i: "init e datasource savedir slash tab st fw d a
             = and_then ?o (\<lambda>w1. Returned (w1\<lparr>isrunning := True\<rparr>))"
    using assms(1) by (simp add: init_def Let_def)
  have f: "emitted ?w = []" "tabID ?w = tab"
    "wavfilename ?w = savedir @ slash @ ''tempwav_'' @ py_str tab @ ''.WAV''"
    by (simp_all add: fresh_def)
  note m = init_file_missing[OF assms(2,3), of ?w]
  have 1: "reason (state_of (init e datasource savedir slash tab st fw d a)) = 1"
    and 2: "emitted (state_of (init e datasource savedir slash tab st fw d a)) = [Terminated tab 1]"
    using m(1,2) f unfolding i by (cases ?o; simp)+
  have 3: "\<not> returned (init e datasource savedir slash tab st fw d a)
           \<and> \<not> isrunning (state_of (init e datasource savedir slash tab st fw d a))"
    if "copy_file e (drop 10 datasource) (savedir @ slash @ ''tempwav_'' @ py_str tab @ ''.WAV'') \<noteq> None"
    using m(3) that f unfolding i by (cases ?o; simp)
  from 1 have "run e (state_of (init e datasource savedir slash tab st fw d a)) ticks
           = Returned (state_of (init e datasource savedir slash tab st fw d a))"
    by (simp add: run_terminated)
  with 1 2 3 show ?thesis by blast
qed

theorem init_missing_file_terminates_witness:
  "\<not> file_exists example_env (drop 10 ''AAA-00000-gone.wav'')
   \<and> reason (state_of (init example_env ''AAA-00000-gone.wav'' ''tmp'' ''/'' 7 0 1 (1 / 2) 0)) = 1
   \<and> emitted (state_of (init example_env ''AAA-00000-gone.wav'' ''tmp'' ''/'' 7 0 1 (1 / 2) 0))
       = [Terminated 7 1]
   \<and> \<not> returned (init example_env ''AAA-00000-gone.wav'' ''tmp'' ''/'' 7 0 1 (1 / 2) 0)"
proof -
  have h: "take 3 ''AAA-00000-gone.wav'' = ''AAA''"
    "parse_int example_env (py_slice ''AAA-00000-gone.wav'' 4 9) = Some 0"
    "\<not> file_exists example_env (drop 10 ''AAA-00000-gone.wav'')"
    "copy_file example_env (drop 10 ''AAA-00000-gone.wav'') x \<noteq> None" for x
    by (simp_all add: example_env_def py_slice_def py_bound_def)
  from init_missing_file_terminates[OF h(1,2,3), of "''tmp''" "''/''" 7 0 1 "1 / 2" 0 "[]"] h(3,4)
  show ?thesis by blast
qed

lemma init_example_file:
  "init example_env ''AAA-00000-a.wav'' ''tmp'' ''/'' 7 0 1 (1 / 2) 0 = Returned example_file_worker"
  by (simp add: init_def init_file_def fresh_def example_env_def example_file_worker_def
      py_slice_def py_bound_def py_str_def Let_def)

lemma init_example_device:
  "init example_env ''MMM-0'' ''tmp'' ''/'' 8 10 1 (1 / 2) 0 = Returned example_device_worker"
  by (simp add: init_def init_device_def fresh_def example_env_def example_device_worker_def
      py_str_def np_round_def Let_def)

lemma length_py_tail:
  "0 < n \<Longrightarrow> nat n \<le> length xs \<Longrightarrow> length (py_tail xs n) = nat n"
  by (simp add: py_tail_def py_bound_def)

lemma clock_quiet: "clock (quiet c) = c"
  by (simp add: quiet_def)

lemma example_tail: "py_tail (replicate 100000 (0::int)) 4 = [0, 0, 0, 0]"
proof -
  have "drop 99996 (replicate 100000 (0::int)) = replicate 4 0" by simp
  moreover have "replicate 4 (0::int) = [0, 0, 0, 0]" by (simp add: numeral_eq_Suc)
  ultimately show ?thesis by (simp add: py_tail_def py_bound_def)
qed

lemma changethresholds_example_device:
  "changethresholds example_env 1 (1 / 2) 0 example_device_worker
     = Returned (example_streaming\<lparr>stream := None\<rparr>)"
  by (simp add: changethresholds_def calc_settings_def example_env_def example_device_worker_def
      example_streaming_def np_round_def Let_def bin_freq_def mask_select_def emit_def upt_rec)

lemma example_streaming_fields:
  "isrunning example_streaming" "\<not> fromAudio example_streaming"
  "N example_streaming = 4" "audiostream example_streaming = replicate 100000 0"
  "alpha example_streaming = 0" "df example_streaming = 1"
  "keepind example_streaming = [True, True, False, False]" "maxnum example_streaming = 0"
  "tabID example_streaming = 8" "starttime example_streaming = 10"
  "emitted example_streaming = [StatsUpdated 8 4 1 4 [0, 1]]"
  "\<not> fromAudio (example_streaming\<lparr>stream := None\<rparr>)"
  by (simp_all add: example_streaming_def example_device_worker_def)

lemma run_example_device_setup:
  "run example_env example_device_worker ticks
     = (case loop example_env example_streaming 0 ticks of
          Raised err w3 \<Rightarrow> terminate 4 (w3\<lparr>isrunning := False\<rparr>)
        | Returned w3 \<Rightarrow> Returned w3)"
proof -
  have f: "isrunning example_device_worker" "reason example_device_worker = 0"
    "fftwindow example_device_worker = 1" "dt example_device_worker = 1 / 2"
    "alpha example_device_worker = 0"
    by (simp_all add: example_device_worker_def)
  have d: "device_setup example_env (example_streaming\<lparr>stream := None\<rparr>) = Returned example_streaming"
    by (simp add: device_setup_def example_env_def example_streaming_def example_device_worker_def)
  show ?thesis
    by (simp add: run_def barrier_running f changethresholds_example_device d
        example_streaming_fields(12) del: loop.simps)
qed

lemma run_example_device:
  "run example_env example_device_worker [quiet 13]
     = Returned (example_streaming
         \<lparr>emitted := [StatsUpdated 8 4 1 4 [0, 1], Iterated 0 0 8 3 [NInf, NInf]]\<rparr>)"
proof -
  have l: "loop example_env example_streaming 0 [quiet 13]
     = Returned (example_streaming
         \<lparr>emitted := [StatsUpdated 8 4 1 4 [0, 1], Iterated 0 0 8 3 [NInf, NInf]]\<rparr>)"
    by (simp add: example_streaming_fields read_window_def sample_time_def example_tail
        dofft_no_taper mask_select_def psd_zero_window after_cycle_quiet emit_def clock_quiet)
  show ?thesis by (simp add: run_example_device_setup l del: loop.simps)
qed

lemma run_example_device_back:
  "run example_env example_device_worker [quiet 13, quiet 12]
     = Returned (example_streaming
         \<lparr>emitted := [StatsUpdated 8 4 1 4 [0, 1], Iterated 0 0 8 3 [NInf, NInf],
                      Iterated 1 0 8 2 [NInf, NInf]]\<rparr>)"
proof -
  have l: "loop example_env example_streaming 0 [quiet 13, quiet 12]
     = Returned (example_streaming
         \<lparr>emitted := [StatsUpdated 8 4 1 4 [0, 1], Iterated 0 0 8 3 [NInf, NInf],
                      Iterated 1 0 8 2 [NInf, NInf]]\<rparr>)"
    by (simp add: example_streaming_fields read_window_def sample_time_def example_tail
        dofft_no_taper mask_select_def psd_zero_window after_cycle_quiet emit_def clock_quiet)
  show ?thesis by (simp add: run_example_device_setup l del: loop.simps)
qed

lemma rounding_example: "rounding_monotone example_env"
  by (simp add: rounding_monotone_def example_env_def)

text \<open>
  Claim C9, as amended. In a run that starts with no record emitted, the spectral records
  emitted have strictly increasing iteration indices, whatever the clock does. Their
  sample times are non-decreasing for a file-backed worker (the sample rate of a file is
  a header field and not negative; rounding is monotone), and for a device-backed worker
  when the readings of the clock, one per cycle, do not step back. What has been emitted
  stays, in order, at the front of what is emitted later, and a cycle whose window is read
  and whose estimate returns emits its record.
\<close>

theorem run_records_in_order:
  assumes "records (emitted w) = []"
  shows "sorted_wrt (<) (map fst (records (emitted (state_of (run e w ticks)))))
       \<and> ((fromAudio w \<and> 0 \<le> fs w \<and> rounding_monotone e)
            \<or> (\<not> fromAudio w \<and> sorted (map clock ticks))
          \<longrightarrow> sorted (map snd (records (emitted (state_of (run e w ticks))))))
       \<and> prefix (emitted w) (emitted (state_of (run e w ticks)))
       \<and> (isrunning w' \<and> (fromAudio w' \<longrightarrow> k < maxnum w' \<and> k < length (sampletimes w'))
            \<and> read_window w' t k = Some p
            \<and> dofft e w' (map real_of_int p) = (Inr spectra, w1)
          \<longrightarrow> prefix (emitted w' @ [Iterated (int k) (maxnum w') (tabID w') (sample_time w' t k) spectra])
                (emitted (state_of (loop e w' k (t # ts)))))"
proof -
  have i: "sorted_wrt (<) (map fst (records (emitted (state_of (run e w ticks)))))"
    using run_ordered(1)[where tm = False and e = e and ticks = ticks, OF assms]
    by (simp add: ordered_def)
  have t: "sorted (map snd (records (emitted (state_of (run e w ticks)))))"
    if "(fromAudio w \<and> 0 \<le> fs w \<and> rounding_monotone e)
          \<or> (\<not> fromAudio w \<and> sorted (map clock ticks))"
  proof -
    from that have a: "fromAudio w \<Longrightarrow> 0 \<le> fs w \<and> rounding_monotone e"
      and b: "\<not> fromAudio w \<Longrightarrow> sorted (map clock ticks)"
      by auto
    from run_ordered(1)[where tm = True and e = e and ticks = ticks, OF assms a b]
    show ?thesis by (simp add: ordered_def)
  qed
  have p: "prefix (emitted w) (emitted (state_of (run e w ticks)))"
    by (rule run_ordered(2)[where tm = False, OF assms]) simp_all
  from i t p cycle_emits[of w' k t p e spectra w1 ts] show ?thesis by blast
qed

theorem run_records_in_order_witness:
  "records (emitted example_file_worker) = []
   \<and> fromAudio example_file_worker \<and> 0 \<le> fs example_file_worker
   \<and> rounding_monotone example_env
   \<and> records (emitted (state_of
        (run example_env example_file_worker [quiet 0, quiet 0, quiet 0, quiet 0, quiet 0])))
       = [(1, 1 / 2), (2, 1)]
   \<and> sorted_wrt (<) (map fst (records (emitted (state_of
        (run example_env example_file_worker [quiet 0, quiet 0, quiet 0, quiet 0, quiet 0])))))
   \<and> sorted (map snd (records (emitted (state_of
        (run example_env example_file_worker [quiet 0, quiet 0, quiet 0, quiet 0, quiet 0])))))"
proof -
  have h: "records (emitted example_file_worker) = []"
    and g: "fromAudio example_file_worker" "0 \<le> fs example_file_worker"
    by (simp_all add: example_file_worker_def)
  have r: "records (emitted (state_of
        (run example_env example_file_worker [quiet 0, quiet 0, quiet 0, quiet 0, quiet 0])))
       = [(1, 1 / 2), (2, 1)]"
    by (simp add: run_example_whole)
  from run_records_in_order[OF h, of example_env "[quiet 0, quiet 0, quiet 0, quiet 0, quiet 0]"]
    h g rounding_example r
  show ?thesis by blast
qed

text \<open>
  Claim C9 as stated fails for a device: the sample time is the reading of the clock, and
  when the second reading (12) is before the first (13) the second record carries the
  earlier time.
\<close>

theorem device_clock_steps_back:
  "records (emitted (state_of (run example_env example_device_worker [quiet 13, quiet 12])))
     = [(0, 3), (1, 2)]
   \<and> \<not> sorted (map snd [(0 :: int, 3 :: real), (1, 2)])"
  by (simp add: run_example_device_back)

lemma init_device_prefills:
  "init_device e datasource w0 = Returned w' \<Longrightarrow> audiostream w' = replicate 100000 0"
  by (auto simp: init_device_def Let_def split: option.splits sum.splits)

text \<open>
  Claim C7, as amended. A device-backed worker never finds its window unavailable:
  \<open>__init__\<close> fills the rolling buffer with 100000 zeros, and in every cycle of a running
  worker the read is the tail \<open>audiostream[-N:]\<close> of the buffer and is handed to the
  estimator; the cycle emits a record when the estimator returns and leaves the loop with
  the exception when it raises, so no cycle is skipped. When \<open>0 < N\<close> is at most the
  length of the buffer, the mask of kept bins is the lower half of the \<open>N\<close> bins (as
  \<open>calc_settings\<close> derives it) and, for \<open>alpha > 0\<close>, the cached taper has length
  \<open>N\<close>, the estimator returns and the cycle emits a record of \<open>N/2\<close> values,
  whatever the buffer holds, so also before any sample has arrived.
\<close>

theorem device_window_always_read:
  assumes "\<not> fromAudio w" and "isrunning w"
  shows "read_window w t k = Some (py_tail (audiostream w) (N w))
       \<and> loop e w k (t # ts)
           = (case dofft e w (map real_of_int (py_tail (audiostream w) (N w))) of
                (Inl err, w1) \<Rightarrow> Raised err w1
              | (Inr spectra, w1) \<Rightarrow>
                  loop e
                    (after_cycle e t
                       (emit (Iterated (int k) (maxnum w1) (tabID w1) (clock t - starttime w) spectra)
                          w1))
                    (Suc k) ts)
       \<and> (0 < N w \<and> nat (N w) \<le> length (audiostream w)
            \<and> keepind w = map (\<lambda>j. j < nat (N w div 2)) [0 ..< nat (N w)]
            \<and> (alpha w \<le> 0 \<or>
                 (\<exists>tp. taper w = Some tp \<and> taperlen w = nat (N w) \<and> length tp = nat (N w)))
          \<longrightarrow> (\<exists>spectra. length spectra = nat (N w div 2) \<and>
                 loop e w k (t # ts)
                   = loop e
                       (after_cycle e t
                          (emit (Iterated (int k) (maxnum w) (tabID w) (clock t - starttime w) spectra)
                             w))
                       (Suc k) ts))
       \<and> (init_device e datasource w0 = Returned w' \<longrightarrow> audiostream w' = replicate 100000 0)"
proof -
  let ?pcm = "map real_of_int (py_tail (audiostream w) (N w))"
  have rw: "read_window w t k = Some (py_tail (audiostream w) (N w))"
    using assms(1) by (simp add: read_window_def)
  have st: "sample_time w t k = clock t - starttime w"
    using assms(1) by (simp add: sample_time_def)
  have lc: "loop e w k (t # ts)
           = (case dofft e w ?pcm of
                (Inl err, w1) \<Rightarrow> Raised err w1
              | (Inr spectra, w1) \<Rightarrow>
                  loop e
                    (after_cycle e t
                       (emit (Iterated (int k) (maxnum w1) (tabID w1) (clock t - starttime w) spectra)
                          w1))
                    (Suc k) ts)"
  proof -
    have "loop e w k (t # ts) =
       (case read_window w t k of
          None \<Rightarrow> loop e (after_cycle e t w) (Suc k) ts
        | Some pcmdata \<Rightarrow>
            (case dofft e w (map real_of_int pcmdata) of
               (Inl err, w1) \<Rightarrow> Raised err w1
             | (Inr spectra, w1) \<Rightarrow>
                 loop e
                   (after_cycle e t
                      (emit (Iterated (int k) (maxnum w1) (tabID w1) (sample_time w t k) spectra) w1))
                   (Suc k) ts))"
      by (rule loop_cycle) (use assms in simp_all)
    then show ?thesis unfolding rw st by (simp del: loop.simps)
  qed
  have em: "\<exists>spectra. length spectra = nat (N w div 2) \<and>
                 loop e w k (t # ts)
                   = loop e
                       (after_cycle e t
                          (emit (Iterated (int k) (maxnum w) (tabID w) (clock t - starttime w) spectra)
                             w))
                       (Suc k) ts"
    if h: "0 < N w \<and> nat (N w) \<le> length (audiostream w)
            \<and> keepind w = map (\<lambda>j. j < nat (N w div 2)) [0 ..< nat (N w)]
            \<and> (alpha w \<le> 0 \<or>
                 (\<exists>tp. taper w = Some tp \<and> taperlen w = nat (N w) \<and> length tp = nat (N w)))"
  proof -
    from h have len: "length (py_tail (audiostream w) (N w)) = nat (N w)"
      by (simp add: length_py_tail)
    then have len': "length ?pcm = nat (N w)" by simp
    from h len' have ki: "keepind w = map (\<lambda>j. j < nat (N w div 2)) [0 ..< length ?pcm]"
      by simp
    from h len' have tp: "alpha w \<le> 0 \<or>
        (\<exists>t. taper w = Some t \<and> taperlen w = length t \<and> length t = length ?pcm)"
      by auto
    from h len' have ne: "?pcm \<noteq> []" by auto
    from dofft_settled[OF ki tp ne, of e] obtain tapered
      where t: "length tapered = length ?pcm"
        "dofft e w ?pcm
           = (Inr (map np_log10
                     (take (nat (N w div 2)) (psd (df w) (dft (map complex_of_real tapered))))), w)"
      by blast
    let ?s = "map np_log10 (take (nat (N w div 2)) (psd (df w) (dft (map complex_of_real tapered))))"
    have ls: "length ?s = nat (N w div 2)"
      using h t(1) len by (simp add: length_psd length_dft)
    have "loop e w k (t # ts)
            = loop e
                (after_cycle e t
                   (emit (Iterated (int k) (maxnum w) (tabID w) (clock t - starttime w) ?s) w))
                (Suc k) ts"
      unfolding lc t(2) by simp
    with ls show ?thesis by blast
  qed
  from rw lc em init_device_prefills[of e datasource w0 w'] show ?thesis by blast
qed

theorem device_window_always_read_witness:
  "\<not> fromAudio example_streaming \<and> isrunning example_streaming
   \<and> read_window example_streaming (quiet 13) 5 = Some [0, 0, 0, 0]
   \<and> (\<exists>spectra. length spectra = 2 \<and>
          loop example_env example_streaming 5 [quiet 13]
            = Returned (emit (Iterated 5 0 8 3 spectra) example_streaming))"
proof -
  note f = example_streaming_fields
  have h: "0 < N example_streaming \<and> nat (N example_streaming) \<le> length (audiostream example_streaming)
            \<and> keepind example_streaming
                = map (\<lambda>j. j < nat (N example_streaming div 2)) [0 ..< nat (N example_streaming)]
            \<and> (alpha example_streaming \<le> 0 \<or>
                 (\<exists>tp. taper example_streaming = Some tp \<and> taperlen example_streaming = nat (N example_streaming)
                    \<and> length tp = nat (N example_streaming)))"
    by (simp add: f upt_rec)
  from device_window_always_read[OF f(2) f(1), of "quiet 13" 5 example_env "[]"] h
  have "read_window example_streaming (quiet 13) 5
          = Some (py_tail (audiostream example_streaming) (N example_streaming))"
    and "\<exists>spectra. length spectra = nat (N example_streaming div 2) \<and>
           loop example_env example_streaming 5 (quiet 13 # [])
             = loop example_env
                 (after_cycle example_env (quiet 13)
                    (emit (Iterated (int 5) (maxnum example_streaming) (tabID example_streaming)
                            (clock (quiet 13) - starttime example_streaming) spectra)
                       example_streaming))
                 (Suc 5) []"
    by blast+
  then show ?thesis by (simp add: f example_tail clock_quiet after_cycle_quiet)
qed

text \<open>
  Claim C7 as stated fails: the example device worker, whose buffer holds the initial
  zeros and to which no sample is delivered, emits a spectral record in its first cycle.
\<close>

theorem device_emits_before_samples:
  "audiostream example_device_worker = replicate 100000 0
   \<and> arrivals (quiet 13) = []
   \<and> run example_env example_device_worker [quiet 13]
       = Returned (example_streaming
           \<lparr>emitted := [StatsUpdated 8 4 1 4 [0, 1], Iterated 0 0 8 3 [NInf, NInf]]\<rparr>)"
proof -
  have "audiostream example_device_worker = replicate 100000 0"
    by (simp add: example_device_worker_def)
  moreover have "arrivals (quiet 13) = []" by (simp add: quiet_def)
  ultimately show ?thesis using run_example_device by simp
qed

end
